theory Spec2Isabelle
  imports Main
begin

section \<open>PageSaving: the in-page save coordination of the connector\<close>

text \<open>
  The embedded program is \<^verbatim>\<open>src/common/inject/pageSaving.js\<close>: the object
  \<^verbatim>\<open>PageSaving\<close> with its two fields \<^verbatim>\<open>sessionDetails\<close> and
  \<^verbatim>\<open>translators\<close> and its methods. The methods are asynchronous JavaScript; the
  model runs each of them from its first to its last statement without interleaving
  another entry point. What the collaborators outside the file answer (the translation
  engine, the item saver, the connector client, the document) is read from an
  environment record, one field per call the source makes. Every message passed to
  \<^verbatim>\<open>Zotero.Messaging.sendMessage\<close> and every call that leaves the page is
  appended to a trace kept beside the two fields.
\<close>

subsection \<open>JavaScript values and truthiness\<close>

datatype jsval = JUndefined | JNull | JBool bool | JNum int | JStr string

fun truthy :: "jsval \<Rightarrow> bool" where
  "truthy JUndefined = False"
| "truthy JNull = False"
| "truthy (JBool b) = b"
| "truthy (JNum n) = (n \<noteq> 0)"
| "truthy (JStr s) = (s \<noteq> [])"

text \<open>A value that is either \<^verbatim>\<open>undefined\<close> or a string: truthy when it is a non-empty string.\<close>

fun truthy_str :: "string option \<Rightarrow> bool" where
  "truthy_str None = False"
| "truthy_str (Some s) = (s \<noteq> [])"

subsection \<open>Data model\<close>

text \<open>The options object of a save action; an absent property is \<^verbatim>\<open>undefined\<close>.\<close>

record save_options =
  opt_note :: jsval
  opt_resave :: jsval
  opt_fallbackOnFailure :: jsval
  opt_snapshot :: jsval

definition no_options :: save_options where
  "no_options = \<lparr>opt_note = JUndefined, opt_resave = JUndefined,
     opt_fallbackOnFailure = JUndefined, opt_snapshot = JUndefined\<rparr>"

record translator =
  translatorID :: string
  label :: string
  itemType :: string

text \<open>\<^verbatim>\<open>sessionDetails\<close>: an object whose four properties are each present or absent.\<close>

record session_details =
  sess_id :: "string option"
  sess_url :: "string option"
  sess_translatorID :: "string option"
  sess_saveOptions :: "save_options option"

definition empty_session :: session_details where
  "empty_session = \<lparr>sess_id = None, sess_url = None,
     sess_translatorID = None, sess_saveOptions = None\<rparr>"

datatype notes_value = NotesArray "jsval list" | NotesObject jsval

record item =
  item_id :: string
  item_title :: string
  item_itemType :: string
  item_notes :: "notes_value option"

text \<open>A thrown value: what \<^verbatim>\<open>e.toString()\<close>, \<^verbatim>\<open>e.status\<close> and
  \<^verbatim>\<open>e.value\<close> give. \<^verbatim>\<open>e.value\<close> is absent or an object whose
  \<^verbatim>\<open>libraryEditable\<close> is absent or a boolean.\<close>

record js_error =
  err_string :: string
  status :: jsval
  err_value :: "bool option option"

definition Error :: "string \<Rightarrow> js_error" where
  "Error msg = \<lparr>err_string = ''Error: '' @ msg, status = JUndefined, err_value = None\<rparr>"

definition TypeError :: "string \<Rightarrow> js_error" where
  "TypeError msg = \<lparr>err_string = ''TypeError: '' @ msg, status = JUndefined, err_value = None\<rparr>"

text \<open>The payload of \<^verbatim>\<open>progressWindow.itemProgress\<close>.\<close>

record progress_item =
  pi_sessionID :: "string option"
  pi_id :: jsval
  pi_iconSrc :: string
  pi_title :: string
  pi_parentItem :: jsval
  pi_progress :: jsval
  pi_itemType :: "string option"
  pi_itemsLoaded :: jsval

text \<open>The object posted to the connector client by \<^verbatim>\<open>saveAsWebpage\<close>.\<close>

record snapshot_data =
  d_sessionID :: string
  d_url :: string
  d_referrer :: string
  d_cookie :: "string option"
  d_title :: string
  d_html :: string
  d_skipSnapshot :: bool
  d_singleFile :: bool
  d_pdf :: bool
  d_snapshotContent :: "string option"

text \<open>What the client answers to \<^verbatim>\<open>saveSnapshot\<close> and \<^verbatim>\<open>saveSingleFile\<close>.\<close>

record snapshot_result =
  saveSingleFile :: bool
  attachments :: "string list option"

datatype event =
    ProgressWindow_show "string option"
  | SetTimeout_show nat string
  | ProgressWindow_itemProgress progress_item
  | ProgressWindow_sessionCreated string
  | ProgressWindow_error_fallback string string
  | ProgressWindow_done bool "string list"
  | LogError js_error
  | Call_isIncognito
  | Call_saveSnapshot snapshot_data
  | Call_saveSingleFile snapshot_data
  | Call_retrievePageData
  | Call_server_saveAsWebpage
  | Call_initTranslate
  | Call_detect
  | Call_translate "translator list"
  | Call_saveItems string "item list"
  | Call_onPDFFrame string
  | Call_onTranslators "translator list" string

datatype retval =
    RUndefined
  | RSent
  | RItems "item list"
  | RResult "snapshot_result option"
  | RPDFFrame

record document =
  location_href :: string
  doc_title :: string
  referrer :: string
  cookie :: "string option"
  contentType :: string
  innerHTML :: string

text \<open>The environment: the document and the answer of each collaborator.\<close>

record env =
  doc :: document
  isManifestV3 :: bool
  isSafari :: bool
  isChromium :: bool
  isTopWindow :: bool
  isIncognito :: bool
  randomString :: string
  checkActionToServer :: bool
  offscreen_create :: "js_error + unit"
  detect :: "js_error + translator list"
  translate :: "js_error + item list"
  saveItems :: "js_error + item list"
  saveSnapshot :: "js_error + snapshot_result option"
  retrievePageData :: "js_error + string"
  client_saveSingleFile :: "js_error + snapshot_result option"
  server_saveAsWebpage :: "js_error + item list"

text \<open>The state of \<^verbatim>\<open>PageSaving\<close> and the trace of what it has sent.\<close>

record page_saving =
  sessionDetails :: session_details
  translators :: "translator list"
  trace :: "event list"

definition emit :: "event \<Rightarrow> page_saving \<Rightarrow> page_saving" where
  "emit ev s = s\<lparr>trace := trace s @ [ev]\<rparr>"

subsection \<open>Detection on page load\<close>

text \<open>\<^verbatim>\<open>_initTranslate\<close>: under Manifest V3 the offscreen translate may fail to be
  created; the error is logged twice and thrown again.\<close>

definition initTranslate :: "env \<Rightarrow> page_saving \<Rightarrow> (js_error + unit) \<times> page_saving" where
  "initTranslate en s =
     (let s1 = emit Call_initTranslate s in
      if isManifestV3 en then
        (case offscreen_create en of
           Inl e \<Rightarrow>
             (Inl e,
              emit (LogError e)
                (emit (LogError (Error (''Inject: Initializing translate failed at ''
                    @ location_href (doc en)))) s1))
         | Inr u \<Rightarrow> (Inr (), s1))
      else (Inr (), s1))"

definition onPageLoad_detect :: "env \<Rightarrow> page_saving \<Rightarrow> (js_error + retval) \<times> page_saving" where
  "onPageLoad_detect en s =
     (case initTranslate en s of
        (Inl e, s1) \<Rightarrow> (Inl e, s1)
      | (Inr u, s1) \<Rightarrow>
          (let s2 = emit Call_detect s1 in
           case detect en of
             Inl e \<Rightarrow> (Inl e, s2)
           | Inr ts \<Rightarrow>
               if ts = [] \<and> isSafari en \<and> \<not> isTopWindow en
                  \<and> contentType (doc en) = ''application/pdf''
               then (Inr RPDFFrame, emit (Call_onPDFFrame (location_href (doc en))) s2)
               else (Inr RUndefined,
                     emit (Call_onTranslators ts (contentType (doc en)))
                       (s2\<lparr>translators := ts\<rparr>))))"

definition onPageLoad :: "env \<Rightarrow> jsval \<Rightarrow> page_saving \<Rightarrow> retval \<times> page_saving" where
  "onPageLoad en force s =
     (if location_href (doc en) = ''about:blank'' then (RUndefined, s)
      else
        let s1 = s\<lparr>sessionDetails := empty_session\<rparr> in
        if translators s1 \<noteq> [] \<and> \<not> truthy force then (RUndefined, s1)
        else
          let s2 = (if translators s1 \<noteq> [] then s1\<lparr>translators := []\<rparr> else s1) in
          case onPageLoad_detect en s2 of
            (Inl e, s3) \<Rightarrow> (RUndefined, emit (LogError e) s3)
          | (Inr r, s3) \<Rightarrow> (r, s3))"

subsection \<open>The session\<close>

definition initSession ::
  "env \<Rightarrow> string \<Rightarrow> save_options \<Rightarrow> page_saving \<Rightarrow> string \<times> page_saving" where
  "initSession en tid saveOptions s =
     (let sessionID = randomString en in
      (sessionID,
       s\<lparr>sessionDetails :=
           \<lparr>sess_id = Some sessionID,
            sess_url = Some (location_href (doc en)),
            sess_translatorID = Some tid,
            sess_saveOptions = Some saveOptions\<rparr>\<rparr>))"

definition clearSession :: "page_saving \<Rightarrow> page_saving" where
  "clearSession s = s\<lparr>sessionDetails := empty_session\<rparr>"

definition shouldReopenProgressWindow ::
  "env \<Rightarrow> string \<Rightarrow> save_options \<Rightarrow> string option \<Rightarrow> page_saving \<Rightarrow> bool" where
  "shouldReopenProgressWindow en tid options itype s =
     (truthy_str (sess_id (sessionDetails s))
      \<and> Some (location_href (doc en)) = sess_url (sessionDetails s)
      \<and> Some tid = sess_translatorID (sessionDetails s)
      \<and> itype \<noteq> Some ''multiple''
      \<and> \<not> truthy (opt_note options)
      \<and> \<not> truthy (opt_resave options))"

subsection \<open>Translating and saving\<close>

text \<open>\<^verbatim>\<open>_processNote\<close>: with a note in the stored save options and exactly one item,
  the note is pushed onto the item's notes when the item has any (an object has no
  \<^verbatim>\<open>push\<close>: a TypeError), and otherwise the notes become the object
  \<^verbatim>\<open>{note: ...}\<close>.\<close>

definition processNote :: "page_saving \<Rightarrow> item list \<Rightarrow> js_error + item list" where
  "processNote s items =
     (case sess_saveOptions (sessionDetails s) of
        None \<Rightarrow> Inr items
      | Some saveOptions \<Rightarrow>
          (case items of
             [it] \<Rightarrow>
               if truthy (opt_note saveOptions) then
                 (case item_notes it of
                    Some (NotesArray ns) \<Rightarrow>
                      Inr [it\<lparr>item_notes := Some (NotesArray (ns @ [opt_note saveOptions]))\<rparr>]
                  | Some (NotesObject v) \<Rightarrow>
                      Inl (TypeError ''items[0].notes.push is not a function'')
                  | None \<Rightarrow>
                      Inr [it\<lparr>item_notes := Some (NotesObject (opt_note saveOptions))\<rparr>])
               else Inr items
           | _ \<Rightarrow> Inr items))"

text \<open>\<^verbatim>\<open>translateAndSave\<close>: the translate object, the engine's run over the given
  translators, the note, the item saver. The handlers given to the engine and to the
  item saver only send progress messages and write neither field of the state; what
  they send is not part of the trace.\<close>

definition translateAndSave ::
  "env \<Rightarrow> string \<Rightarrow> translator list \<Rightarrow> page_saving \<Rightarrow> (js_error + item list) \<times> page_saving" where
  "translateAndSave en sessionID ts s =
     (case initTranslate en s of
        (Inl e, s1) \<Rightarrow> (Inl e, s1)
      | (Inr u, s1) \<Rightarrow>
          (let s2 = emit (Call_translate ts) s1 in
           case translate en of
             Inl e \<Rightarrow> (Inl e, s2)
           | Inr items \<Rightarrow>
               (case processNote s2 items of
                  Inl e \<Rightarrow> (Inl e, s2)
                | Inr items' \<Rightarrow>
                    (let s3 = emit (Call_saveItems sessionID items') s2 in
                     case saveItems en of
                       Inl e \<Rightarrow> (Inl e, s3)
                     | Inr saved \<Rightarrow> (Inr saved, s3)))))"

subsection \<open>Saving as a webpage\<close>

record webpage_args =
  arg_sessionID :: "string option"
  arg_title :: "string option"
  arg_snapshot :: jsval

definition wants_singleFile :: "snapshot_result option \<Rightarrow> bool" where
  "wants_singleFile result = (case result of None \<Rightarrow> False | Some r \<Rightarrow> saveSingleFile r)"

definition result_attachments :: "snapshot_result option \<Rightarrow> string list" where
  "result_attachments result =
     (case result of
        None \<Rightarrow> []
      | Some r \<Rightarrow> (case attachments r of None \<Rightarrow> [] | Some ats \<Rightarrow> ats))"

text \<open>The SingleFile step inside the \<^verbatim>\<open>try\<close> block: an error of the page capture
  is swallowed, an error of the client is not.\<close>

definition singleFile_step ::
  "env \<Rightarrow> snapshot_data \<Rightarrow> progress_item \<Rightarrow> page_saving
     \<Rightarrow> (js_error + snapshot_result option) \<times> page_saving" where
  "singleFile_step en data progressItem s =
     (let s1 = emit (ProgressWindow_itemProgress progressItem) s;
          s2 = emit Call_retrievePageData s1;
          data' = (case retrievePageData en of
                     Inl e \<Rightarrow> data
                   | Inr content \<Rightarrow> data\<lparr>d_snapshotContent := Some content\<rparr>);
          s3 = (case retrievePageData en of
                  Inl e \<Rightarrow>
                    emit (ProgressWindow_itemProgress (progressItem\<lparr>pi_progress := JBool False\<rparr>)) s2
                | Inr content \<Rightarrow> s2);
          s4 = emit (Call_saveSingleFile data') s3
      in case client_saveSingleFile en of
           Inl e \<Rightarrow> (Inl e, s4)
         | Inr result \<Rightarrow>
             (Inr result,
              emit (ProgressWindow_itemProgress (progressItem\<lparr>pi_progress := JNum 100\<rparr>)) s4))"

text \<open>\<^verbatim>\<open>Object.assign(this.sessionDetails, {id, url, translatorID})\<close> after a
  saved snapshot: three properties are written, \<^verbatim>\<open>saveOptions\<close> is kept.\<close>

definition assign_session ::
  "env \<Rightarrow> string \<Rightarrow> string \<Rightarrow> session_details \<Rightarrow> session_details" where
  "assign_session en sessionID tid sd =
     sd\<lparr>sess_id := Some sessionID, sess_url := Some (location_href (doc en)),
        sess_translatorID := Some tid\<rparr>"

definition saveAsWebpage_try ::
  "env \<Rightarrow> string \<Rightarrow> string \<Rightarrow> string \<Rightarrow> snapshot_data \<Rightarrow> string \<Rightarrow> page_saving
     \<Rightarrow> (js_error + snapshot_result option) \<times> page_saving" where
  "saveAsWebpage_try en sessionID title tid data img s =
     (let s1 = emit (Call_saveSnapshot data) s in
      case saveSnapshot en of
        Inl e \<Rightarrow> (Inl e, s1)
      | Inr result \<Rightarrow>
          (let s2 = emit (ProgressWindow_sessionCreated sessionID) s1;
               s3 = emit (ProgressWindow_itemProgress
                      \<lparr>pi_sessionID = Some sessionID, pi_id = JNum 1, pi_iconSrc = img,
                       pi_title = title, pi_parentItem = JBool False, pi_progress = JNum 100,
                       pi_itemType = None, pi_itemsLoaded = JNum 1\<rparr>) s2;
               progressItem =
                      \<lparr>pi_sessionID = Some sessionID, pi_id = JNum 2,
                       pi_iconSrc = ''attachment-snapshot'', pi_title = ''Snapshot'',
                       pi_parentItem = JNum 1, pi_progress = JNum 0,
                       pi_itemType = Some ''itemType_snapshot'', pi_itemsLoaded = JNum 1\<rparr>
           in case (if \<not> d_pdf data \<and> wants_singleFile result
                    then singleFile_step en data progressItem s3
                    else (Inr result, s3)) of
                (Inl e, s4) \<Rightarrow> (Inl e, s4)
              | (Inr result', s4) \<Rightarrow>
                  (let s5 = foldl (\<lambda>st t. emit (ProgressWindow_itemProgress
                                 (progressItem\<lparr>pi_title := t, pi_progress := JNum 100\<rparr>)) st)
                              s4 (result_attachments result');
                       s6 = emit (ProgressWindow_done True []) s5;
                       s7 = s6\<lparr>sessionDetails :=
                                 assign_session en sessionID tid (sessionDetails s6)\<rparr>
                   in (Inr result', s7))))"

definition saveAsWebpage_catch ::
  "env \<Rightarrow> string \<Rightarrow> string \<Rightarrow> js_error \<Rightarrow> page_saving \<Rightarrow> (js_error + retval) \<times> page_saving" where
  "saveAsWebpage_catch en title img e s =
     (if status e = JNum 0 then
        if contentType (doc en) \<noteq> ''application/pdf'' then
          (let s1 = emit Call_server_saveAsWebpage s in
           case server_saveAsWebpage en of
             Inl e' \<Rightarrow> (Inl e', s1)
           | Inr items \<Rightarrow>
               (Inr RUndefined,
                emit (ProgressWindow_done True [])
                  (if items \<noteq> [] then
                     emit (ProgressWindow_itemProgress
                       \<lparr>pi_sessionID = None, pi_id = JStr title, pi_iconSrc = img,
                        pi_title = title, pi_parentItem = JBool False, pi_progress = JNum 100,
                        pi_itemType = None, pi_itemsLoaded = JUndefined\<rparr>) s1
                   else s1)))
        else (Inl e, emit (ProgressWindow_done False [''clientRequired'']) s)
      else if (case err_value e of None \<Rightarrow> True | Some v \<Rightarrow> v \<noteq> Some False) then
        (Inl e, emit (ProgressWindow_done False [''unexpectedError'']) s)
      else (Inl e, s))"

text \<open>The \<^verbatim>\<open>try\<close> statement of \<^verbatim>\<open>saveAsWebpage\<close> as a whole.\<close>

definition saveAsWebpage_try_catch ::
  "env \<Rightarrow> string \<Rightarrow> string \<Rightarrow> string \<Rightarrow> snapshot_data \<Rightarrow> string \<Rightarrow> page_saving
     \<Rightarrow> (js_error + retval) \<times> page_saving" where
  "saveAsWebpage_try_catch en sessionID title tid data img s =
     (case saveAsWebpage_try en sessionID title tid data img s of
        (Inr result, s4) \<Rightarrow> (Inr (RResult result), s4)
      | (Inl e, s4) \<Rightarrow> saveAsWebpage_catch en title img e s4)"

definition saveAsWebpage ::
  "env \<Rightarrow> webpage_args \<Rightarrow> page_saving \<Rightarrow> (js_error + retval) \<times> page_saving" where
  "saveAsWebpage en args s =
     (let title = (case arg_title args of None \<Rightarrow> doc_title (doc en) | Some t \<Rightarrow> t);
          saveSnapshot = (if arg_snapshot args = JUndefined then JBool True else arg_snapshot args);
          tid = ''webpage'' @ (if truthy saveSnapshot then ''WithSnapshot'' else [])
      in case arg_sessionID args of
           None \<Rightarrow> (Inl (Error ''Trying to save as webpage without session ID''), s)
         | Some sessionID \<Rightarrow>
           if sessionID = [] then
             (Inl (Error ''Trying to save as webpage without session ID''), s)
           else
           (let data = \<lparr>d_sessionID = sessionID, d_url = location_href (doc en),
                        d_referrer = referrer (doc en), d_cookie = cookie (doc en),
                        d_title = title, d_html = innerHTML (doc en),
                        d_skipSnapshot = (\<not> truthy saveSnapshot), d_singleFile = True,
                        d_pdf = False, d_snapshotContent = None\<rparr>;
                s1 = (if isChromium en then emit Call_isIncognito s else s);
                data1 = (if isChromium en \<and> isIncognito en
                         then data\<lparr>d_singleFile := False\<rparr> else data);
                pdf = (contentType (doc en) = ''application/pdf'');
                data2 = data1\<lparr>d_pdf := pdf\<rparr>;
                img = (if pdf then ''attachment-pdf'' else ''webpage'');
                s2 = emit (ProgressWindow_show (Some sessionID)) s1;
                s3 = emit (ProgressWindow_itemProgress
                       \<lparr>pi_sessionID = Some sessionID, pi_id = JNum 1, pi_iconSrc = img,
                        pi_title = title, pi_parentItem = JUndefined, pi_progress = JUndefined,
                        pi_itemType = None, pi_itemsLoaded = JUndefined\<rparr>) s2
            in saveAsWebpage_try_catch en sessionID title tid data2 img s3))"

subsection \<open>The entry points of a save\<close>

definition SITE_ACCESS_LIMIT_TRANSLATORS :: "string list" where
  "SITE_ACCESS_LIMIT_TRANSLATORS = [''57a00950-f0d1-4b41-b6ba-44ff0fc30289'']"

text \<open>\<^verbatim>\<open>Array.prototype.findIndex\<close>; \<open>None\<close> stands for \<^verbatim>\<open>-1\<close>.\<close>

fun findIndex :: "('a \<Rightarrow> bool) \<Rightarrow> 'a list \<Rightarrow> nat option" where
  "findIndex P [] = None"
| "findIndex P (x # xs) = (if P x then Some 0 else map_option Suc (findIndex P xs))"

text \<open>The regular expression \<^verbatim>\<open>/status code ([0-9]{3})/\<close>: \<open>match_here\<close> tries it
  at the head of the string, \<open>match_status_code\<close> at the leftmost position where it
  matches, and gives the captured group.\<close>

definition isDigit :: "char \<Rightarrow> bool" where
  "isDigit c = (c \<in> set ''0123456789'')"

definition match_here :: "string \<Rightarrow> string option" where
  "match_here str =
     (if take 12 str = ''status code '' \<and> length (take 3 (drop 12 str)) = 3
         \<and> list_all isDigit (take 3 (drop 12 str))
      then Some (take 3 (drop 12 str)) else None)"

fun match_status_code :: "string \<Rightarrow> string option" where
  "match_status_code [] = None"
| "match_status_code (c # cs) =
     (case match_here (c # cs) of Some d \<Rightarrow> Some d | None \<Rightarrow> match_status_code cs)"

text \<open>\<^verbatim>\<open>errorMessage.match(...)[1]\<close> inside \<^verbatim>\<open>try\<close>: without a match the
  status code stays the empty string.\<close>

definition statusCode :: "string \<Rightarrow> string" where
  "statusCode errorMessage =
     (case match_status_code errorMessage of None \<Rightarrow> [] | Some d \<Rightarrow> d)"

text \<open>The \<^verbatim>\<open>else\<close> branch of the \<^verbatim>\<open>catch\<close> in \<^verbatim>\<open>onTranslate\<close>.\<close>

definition onTranslate_failed :: "translator \<Rightarrow> string \<Rightarrow> page_saving \<Rightarrow> page_saving" where
  "onTranslate_failed tr errorMessage s =
     (let s1 = clearSession s;
          isAccessLimitingTranslator = (translatorID tr \<in> set SITE_ACCESS_LIMIT_TRANSLATORS);
          isHTTPErrorForbidden = (statusCode errorMessage = ''403'');
          isHTTPErrorTooManyRequests = (statusCode errorMessage = ''429'')
      in if (isAccessLimitingTranslator \<and> isHTTPErrorForbidden) \<or> isHTTPErrorTooManyRequests
         then emit (ProgressWindow_done False [''siteAccessLimits'', label tr]) s1
         else emit (ProgressWindow_done False []) s1)"

text \<open>\<^verbatim>\<open>onTranslate\<close> after the session has been created: the translators handed
  to \<^verbatim>\<open>translateAndSave\<close>, and what follows its return or its throw.\<close>

definition selected_translators :: "save_options \<Rightarrow> nat \<Rightarrow> translator list \<Rightarrow> translator list" where
  "selected_translators options translatorIndex ts =
     (if \<not> truthy (opt_fallbackOnFailure options)
      then take 1 (drop translatorIndex ts) else drop translatorIndex ts)"

definition onTranslate_save ::
  "env \<Rightarrow> save_options \<Rightarrow> nat \<Rightarrow> translator \<Rightarrow> string \<Rightarrow> page_saving
     \<Rightarrow> (js_error + retval) \<times> page_saving" where
  "onTranslate_save en options translatorIndex tr sessionID s =
     (case translateAndSave en sessionID
             (selected_translators options translatorIndex (translators s)) s of
        (Inr items, s1) \<Rightarrow> (Inr (RItems items), emit (ProgressWindow_done True []) s1)
      | (Inl e, s1) \<Rightarrow>
          (let s2 = emit (LogError e) s1;
               errorMessage = err_string e
           in if itemType tr \<noteq> ''multiple'' \<and> truthy (opt_fallbackOnFailure options) then
                saveAsWebpage en
                  \<lparr>arg_sessionID = Some sessionID, arg_title = None, arg_snapshot = JBool True\<rparr>
                  (emit (ProgressWindow_error_fallback (label (last (translators s2)))
                           ''Save as Webpage'') s2)
              else (Inr RUndefined, onTranslate_failed tr errorMessage s2)))"

text \<open>The new session of \<^verbatim>\<open>onTranslate\<close> and the delayed opening of the progress
  window (100 ms when the Select Items window is likely, else 0).\<close>

definition onTranslate_start ::
  "env \<Rightarrow> string \<Rightarrow> save_options \<Rightarrow> translator \<Rightarrow> page_saving \<Rightarrow> string \<times> page_saving" where
  "onTranslate_start en tid options tr s =
     (let sessionID = fst (initSession en tid options s);
          s1 = snd (initSession en tid options s);
          delay = (if itemType tr = ''multiple'' then 100 else 0)
      in (sessionID, emit (SetTimeout_show delay sessionID) s1))"

definition onTranslate ::
  "env \<Rightarrow> string \<Rightarrow> save_options \<Rightarrow> page_saving \<Rightarrow> (js_error + retval) \<times> page_saving" where
  "onTranslate en tid options s =
     (if \<not> checkActionToServer en then (Inr RUndefined, s)
      else
        case findIndex (\<lambda>t. translatorID t = tid) (translators s) of
          None \<Rightarrow> (Inl (TypeError ''translator is undefined''), s)
        | Some translatorIndex \<Rightarrow>
            (let tr = translators s ! translatorIndex in
             if shouldReopenProgressWindow en tid options (Some (itemType tr)) s then
               (Inr RSent, emit (ProgressWindow_show (sess_id (sessionDetails s))) s)
             else
               onTranslate_save en options translatorIndex tr
                 (fst (onTranslate_start en tid options tr s))
                 (snd (onTranslate_start en tid options tr s))))"

definition onSaveAsWebpage ::
  "env \<Rightarrow> string option \<Rightarrow> save_options \<Rightarrow> page_saving \<Rightarrow> (js_error + retval) \<times> page_saving" where
  "onSaveAsWebpage en title_arg options s =
     (let title = (case title_arg of None \<Rightarrow> doc_title (doc en) | Some t \<Rightarrow> t) in
      if \<not> checkActionToServer en then (Inr RUndefined, s)
      else
        (let tid = ''webpage'' @ (if truthy (opt_snapshot options) then ''WithSnapshot'' else []) in
         if shouldReopenProgressWindow en tid options None s then
           (Inr RSent, emit (ProgressWindow_show (sess_id (sessionDetails s))) s)
         else
           (let sessionID = fst (initSession en tid options s);
                s1 = snd (initSession en tid options s)
            in saveAsWebpage en
                 \<lparr>arg_sessionID = Some sessionID, arg_title = Some title,
                  arg_snapshot = opt_snapshot options\<rparr> s1)))"

subsection \<open>The invariant of the session\<close>

text \<open>\<^verbatim>\<open>sessionDetails\<close> is the empty object, or it identifies a save: its id, its
  url and its translator are all there.\<close>

definition session_inv :: "session_details \<Rightarrow> bool" where
  "session_inv sd =
     (sd = empty_session
      \<or> (sess_id sd \<noteq> None \<and> sess_url sd \<noteq> None \<and> sess_translatorID sd \<noteq> None))"

text \<open>The object as the module creates it.\<close>

definition PageSaving_init :: page_saving where
  "PageSaving_init = \<lparr>sessionDetails = empty_session, translators = [], trace = []\<rparr>"

subsection \<open>A concrete page\<close>

definition ex_doc :: document where
  "ex_doc = \<lparr>location_href = ''https://example.org/a'', doc_title = ''A page'',
     referrer = [], cookie = None, contentType = ''text/html'', innerHTML = ''<p></p>''\<rparr>"

definition ex_tr :: translator where
  "ex_tr = \<lparr>translatorID = ''57a00950-f0d1-4b41-b6ba-44ff0fc30289'',
     label = ''Google Scholar'', itemType = ''journalArticle''\<rparr>"

definition ex_tr2 :: translator where
  "ex_tr2 = \<lparr>translatorID = ''05d07af9-105a-4572-99f6-a8e231c0daef'',
     label = ''COinS'', itemType = ''multiple''\<rparr>"

definition ex_item :: item where
  "ex_item = \<lparr>item_id = ''i1'', item_title = ''T'', item_itemType = ''journalArticle'',
     item_notes = None\<rparr>"

definition ex_env :: env where
  "ex_env = \<lparr>doc = ex_doc, isManifestV3 = False, isSafari = False, isChromium = False,
     isTopWindow = True, isIncognito = False, randomString = ''k3Xw9QpZ'',
     checkActionToServer = True, offscreen_create = Inr (),
     detect = Inr [ex_tr2], translate = Inr [ex_item], saveItems = Inr [ex_item],
     saveSnapshot = Inr (Some \<lparr>saveSingleFile = False, attachments = None\<rparr>),
     retrievePageData = Inr ''page'', client_saveSingleFile = Inr None,
     server_saveAsWebpage = Inr []\<rparr>"

definition ex_session :: session_details where
  "ex_session = \<lparr>sess_id = Some ''Aa11Bb22'', sess_url = Some ''https://example.org/a'',
     sess_translatorID = Some ''57a00950-f0d1-4b41-b6ba-44ff0fc30289'',
     sess_saveOptions = Some no_options\<rparr>"

definition ex_state :: page_saving where
  "ex_state = \<lparr>sessionDetails = ex_session, translators = [ex_tr], trace = []\<rparr>"

definition ex_fresh :: page_saving where
  "ex_fresh = \<lparr>sessionDetails = empty_session, translators = [ex_tr], trace = []\<rparr>"

definition ex_failure :: js_error where
  "ex_failure = Error ''HTTP request failed with status code 403''"

text \<open>An error whose message carries two status codes.\<close>

definition ex_two_codes :: js_error where
  "ex_two_codes =
     Error ''HTTP request failed with status code 500; retry failed with status code 429''"

subsection \<open>The status code of a message, said on its text\<close>

text \<open>Stated on the text of the message alone, to be compared with \<open>statusCode\<close>:
  the message reads \<^verbatim>\<open>status code\<close>, a space and the three decimal digits \<open>d\<close>
  at some place, and at no earlier place does it read \<^verbatim>\<open>status code\<close>, a space
  and three decimal digits.\<close>

definition leftmost_status_code :: "string \<Rightarrow> string \<Rightarrow> bool" where
  "leftmost_status_code msg d =
     (\<exists>pre post.
        msg = pre @ ''status code '' @ d @ post
        \<and> length d = 3 \<and> set d \<subseteq> set ''0123456789''
        \<and> (\<forall>pre' d' post'.
              msg = pre' @ ''status code '' @ d' @ post'
              \<and> length d' = 3 \<and> set d' \<subseteq> set ''0123456789''
              \<longrightarrow> length pre \<le> length pre'))"

section \<open>Properties\<close>

lemmas ex_defs = ex_doc_def ex_tr_def ex_tr2_def ex_item_def ex_env_def ex_session_def
  ex_state_def ex_fresh_def ex_failure_def no_options_def empty_session_def

lemmas run_defs = onTranslate_def onTranslate_start_def onTranslate_save_def
  onTranslate_failed_def onSaveAsWebpage_def saveAsWebpage_def saveAsWebpage_try_catch_def
  saveAsWebpage_try_def saveAsWebpage_catch_def singleFile_step_def translateAndSave_def
  processNote_def initTranslate_def initSession_def clearSession_def
  shouldReopenProgressWindow_def selected_translators_def assign_session_def
  wants_singleFile_def result_attachments_def emit_def Error_def Let_def

subsection \<open>What an emitted event leaves alone\<close>

lemma sessionDetails_emit [simp]: "sessionDetails (emit ev s) = sessionDetails s"
  by (simp add: emit_def)

lemma translators_emit [simp]: "translators (emit ev s) = translators s"
  by (simp add: emit_def)

lemma trace_emit [simp]: "trace (emit ev s) = trace s @ [ev]"
  by (simp add: emit_def)

lemma sessionDetails_initTranslate [simp]:
  "sessionDetails (snd (initTranslate en s)) = sessionDetails s"
  by (simp add: initTranslate_def Let_def split: sum.splits)

lemma translators_initTranslate [simp]:
  "translators (snd (initTranslate en s)) = translators s"
  by (simp add: initTranslate_def Let_def split: sum.splits)

lemma sessionDetails_onPageLoad_detect [simp]:
  "sessionDetails (snd (onPageLoad_detect en s)) = sessionDetails s"
proof (cases "initTranslate en s")
  case (Pair r s1)
  then have "sessionDetails s1 = sessionDetails s"
    using sessionDetails_initTranslate [of en s] by simp
  with Pair show ?thesis
    by (auto simp: onPageLoad_detect_def Let_def split: sum.splits)
qed

lemma sessionDetails_onPageLoad:
  "location_href (doc en) \<noteq> ''about:blank'' \<Longrightarrow>
     sessionDetails (snd (onPageLoad en force s)) = empty_session"
proof -
  assume nb: "location_href (doc en) \<noteq> ''about:blank''"
  let ?s1 = "s\<lparr>sessionDetails := empty_session\<rparr>"
  let ?s2 = "if translators ?s1 \<noteq> [] then ?s1\<lparr>translators := []\<rparr> else ?s1"
  obtain r s3 where d: "onPageLoad_detect en ?s2 = (r, s3)"
    by (cases "onPageLoad_detect en ?s2")
  have "sessionDetails (snd (r, s3)) = sessionDetails ?s2"
    unfolding d [symmetric] by (rule sessionDetails_onPageLoad_detect)
  then have "sessionDetails s3 = empty_session" by simp
  with nb d show ?thesis
    by (cases r) (simp_all add: onPageLoad_def Let_def)
qed

subsection \<open>Page load\<close>

text \<open>
  Claim C9. When the document location is \<^verbatim>\<open>about:blank\<close>, \<^verbatim>\<open>onPageLoad\<close>
  returns at once: no detection call is made (the trace is the one before), and the
  session and the cached translators are the ones before; the session is not cleared.
\<close>

theorem onPageLoad_about_blank:
  "location_href (doc en) = ''about:blank'' \<Longrightarrow> onPageLoad en force s = (RUndefined, s)"
  by (simp add: onPageLoad_def)

theorem onPageLoad_about_blank_witness:
  "onPageLoad (ex_env\<lparr>doc := ex_doc\<lparr>location_href := ''about:blank''\<rparr>\<rparr>) (JBool True) ex_state
     = (RUndefined, ex_state)
   \<and> sessionDetails ex_state \<noteq> empty_session"
proof -
  have b: "location_href (doc (ex_env\<lparr>doc := ex_doc\<lparr>location_href := ''about:blank''\<rparr>\<rparr>))
             = ''about:blank''"
    by simp
  have "sessionDetails ex_state \<noteq> empty_session"
    by (simp add: ex_defs)
  with onPageLoad_about_blank [OF b, of "JBool True" ex_state] show ?thesis
    by blast
qed

text \<open>
  Claim C5. On a page that is not \<^verbatim>\<open>about:blank\<close>, \<^verbatim>\<open>onPageLoad\<close> leaves
  the empty session behind whatever \<^verbatim>\<open>force\<close> is and whatever detection answers
  (errors included), and it does so first: the call behaves as the same call on the state
  whose session has already been emptied.
\<close>

theorem onPageLoad_resets_session:
  "location_href (doc en) \<noteq> ''about:blank'' \<Longrightarrow>
     sessionDetails (snd (onPageLoad en force s)) = empty_session
     \<and> onPageLoad en force s = onPageLoad en force (s\<lparr>sessionDetails := empty_session\<rparr>)"
  by (simp add: sessionDetails_onPageLoad) (simp add: onPageLoad_def)

theorem onPageLoad_resets_session_witness:
  "sessionDetails ex_state \<noteq> empty_session
   \<and> sessionDetails (snd (onPageLoad (ex_env\<lparr>detect := Inl ex_failure\<rparr>) (JBool True) ex_state))
       = empty_session"
proof -
  have nb: "location_href (doc (ex_env\<lparr>detect := Inl ex_failure\<rparr>)) \<noteq> ''about:blank''"
    by (simp add: ex_defs)
  have "sessionDetails ex_state \<noteq> empty_session"
    by (simp add: ex_defs)
  with onPageLoad_resets_session [OF nb, of "JBool True" ex_state] show ?thesis
    by blast
qed

text \<open>
  Claim C3. On a page that is not \<^verbatim>\<open>about:blank\<close>: with a non-empty translator
  list and a falsy \<^verbatim>\<open>force\<close>, \<^verbatim>\<open>onPageLoad\<close> makes no detection call and
  keeps the list; with a truthy \<^verbatim>\<open>force\<close> the cached list plays no part (the call
  behaves as on the emptied list), detection is started again, and afterwards the list
  is what detection found: the detected translators, or none when the translate object
  or the detection failed.
\<close>

theorem onPageLoad_translator_cache:
  assumes nb: "location_href (doc en) \<noteq> ''about:blank''"
  shows "(translators s \<noteq> [] \<and> \<not> truthy force \<longrightarrow>
            translators (snd (onPageLoad en force s)) = translators s
            \<and> trace (snd (onPageLoad en force s)) = trace s)
       \<and> (truthy force \<longrightarrow>
            onPageLoad en force s = onPageLoad en force (s\<lparr>translators := []\<rparr>)
            \<and> (\<exists>evs. trace (snd (onPageLoad en force s)) = trace s @ Call_initTranslate # evs)
            \<and> translators (snd (onPageLoad en force s)) =
                (if isManifestV3 en \<and> isl (offscreen_create en) then []
                 else case detect en of Inl e \<Rightarrow> [] | Inr ts \<Rightarrow> ts))"
proof (intro conjI impI)
  assume "translators s \<noteq> [] \<and> \<not> truthy force"
  with nb show "translators (snd (onPageLoad en force s)) = translators s"
    by (simp add: onPageLoad_def)
next
  assume "translators s \<noteq> [] \<and> \<not> truthy force"
  with nb show "trace (snd (onPageLoad en force s)) = trace s"
    by (simp add: onPageLoad_def)
next
  assume f: "truthy force"
  show "onPageLoad en force s = onPageLoad en force (s\<lparr>translators := []\<rparr>)"
  proof (cases "translators s = []")
    case True
    then have "s\<lparr>translators := []\<rparr> = s" by simp
    then show ?thesis by simp
  next
    case False
    have sw: "s\<lparr>sessionDetails := empty_session, translators := []\<rparr>
            = s\<lparr>translators := [], sessionDetails := empty_session\<rparr>"
      by simp
    from nb f False show ?thesis by (simp add: onPageLoad_def Let_def sw)
  qed
next
  assume "truthy force"
  with nb show "\<exists>evs. trace (snd (onPageLoad en force s)) = trace s @ Call_initTranslate # evs"
    by (auto simp: onPageLoad_def onPageLoad_detect_def initTranslate_def Let_def
             split: sum.splits)
next
  assume "truthy force"
  with nb show "translators (snd (onPageLoad en force s)) =
      (if isManifestV3 en \<and> isl (offscreen_create en) then []
       else case detect en of Inl e \<Rightarrow> [] | Inr ts \<Rightarrow> ts)"
    by (auto simp: onPageLoad_def onPageLoad_detect_def initTranslate_def Let_def
             split: sum.splits)
qed

theorem onPageLoad_translator_cache_witness:
  "translators (snd (onPageLoad ex_env JUndefined ex_state)) = [ex_tr]
   \<and> trace (snd (onPageLoad ex_env JUndefined ex_state)) = []
   \<and> translators (snd (onPageLoad ex_env (JBool True) ex_state)) = [ex_tr2]"
proof -
  have nb: "location_href (doc ex_env) \<noteq> ''about:blank''"
    by (simp add: ex_defs)
  have a: "translators ex_state \<noteq> [] \<and> \<not> truthy JUndefined"
    by (simp add: ex_defs)
  have b: "truthy (JBool True)" by simp
  have c: "(if isManifestV3 ex_env \<and> isl (offscreen_create ex_env) then []
            else case detect ex_env of Inl e \<Rightarrow> [] | Inr ts \<Rightarrow> ts) = [ex_tr2]"
    by (simp add: ex_env_def)
  have d: "translators ex_state = [ex_tr]" "trace ex_state = []"
    by (simp_all add: ex_state_def)
  from onPageLoad_translator_cache [OF nb, of ex_state JUndefined] a d
  have 1: "translators (snd (onPageLoad ex_env JUndefined ex_state)) = [ex_tr]
         \<and> trace (snd (onPageLoad ex_env JUndefined ex_state)) = []"
    by simp
  from onPageLoad_translator_cache [OF nb, of ex_state "JBool True"] b
  have "translators (snd (onPageLoad ex_env (JBool True) ex_state)) =
      (if isManifestV3 ex_env \<and> isl (offscreen_create ex_env) then []
       else case detect ex_env of Inl e \<Rightarrow> [] | Inr ts \<Rightarrow> ts)"
    by blast
  then have 2: "translators (snd (onPageLoad ex_env (JBool True) ex_state)) = [ex_tr2]"
    unfolding c .
  from 1 2 show ?thesis by simp
qed

subsection \<open>Saving as a webpage without a session\<close>

text \<open>
  Claim C8. \<^verbatim>\<open>saveAsWebpage\<close> called with a falsy session id (absent, or the empty
  string) throws its error and leaves the whole state as it was: the session, the
  translators and the trace, so no progress message has been sent and the connector
  client has not been called.
\<close>

theorem saveAsWebpage_requires_sessionID:
  "\<not> truthy_str (arg_sessionID args) \<Longrightarrow>
     saveAsWebpage en args s =
       (Inl (Error ''Trying to save as webpage without session ID''), s)"
  by (cases "arg_sessionID args") (simp_all add: saveAsWebpage_def Let_def)

theorem saveAsWebpage_requires_sessionID_witness:
  "saveAsWebpage ex_env \<lparr>arg_sessionID = Some [], arg_title = None, arg_snapshot = JUndefined\<rparr>
       ex_state
     = (Inl (Error ''Trying to save as webpage without session ID''), ex_state)"
proof -
  have "\<not> truthy_str (arg_sessionID
          \<lparr>arg_sessionID = Some [], arg_title = None, arg_snapshot = JUndefined\<rparr>)"
    by simp
  then show ?thesis by (rule saveAsWebpage_requires_sessionID)
qed

subsection \<open>Frame and trace lemmas of the save operations\<close>

lemma sessionDetails_translateAndSave [simp]:
  "sessionDetails (snd (translateAndSave en sid ts s)) = sessionDetails s"
proof (cases "initTranslate en s")
  case (Pair r s1)
  then have "sessionDetails s1 = sessionDetails s"
    using sessionDetails_initTranslate [of en s] by simp
  with Pair show ?thesis
    by (auto simp: translateAndSave_def Let_def split: sum.splits)
qed

lemma translators_translateAndSave [simp]:
  "translators (snd (translateAndSave en sid ts s)) = translators s"
proof (cases "initTranslate en s")
  case (Pair r s1)
  then have "translators s1 = translators s"
    using translators_initTranslate [of en s] by simp
  with Pair show ?thesis
    by (auto simp: translateAndSave_def Let_def split: sum.splits)
qed

lemma trace_initTranslate:
  "\<exists>evs. trace (snd (initTranslate en s)) = trace s @ Call_initTranslate # evs"
  by (simp add: initTranslate_def Let_def split: sum.splits)

lemma trace_translateAndSave:
  "\<exists>evs. trace (snd (translateAndSave en sid ts s)) = trace s @ Call_initTranslate # evs"
proof (cases "initTranslate en s")
  case (Pair r s1)
  then obtain evs where "trace s1 = trace s @ Call_initTranslate # evs"
    using trace_initTranslate [of en s] by auto
  with Pair show ?thesis
    by (auto simp: translateAndSave_def Let_def split: sum.splits)
qed

lemma sessionDetails_foldl_emit [simp]:
  "sessionDetails (foldl (\<lambda>st t. emit (f t) st) s xs) = sessionDetails s"
  by (induction xs arbitrary: s) simp_all

lemma translators_foldl_emit [simp]:
  "translators (foldl (\<lambda>st t. emit (f t) st) s xs) = translators s"
  by (induction xs arbitrary: s) simp_all

lemma trace_foldl_emit [simp]:
  "trace (foldl (\<lambda>st t. emit (f t) st) s xs) = trace s @ map f xs"
  by (induction xs arbitrary: s) simp_all

lemma sessionDetails_singleFile_step [simp]:
  "sessionDetails (snd (singleFile_step en data p s)) = sessionDetails s"
  by (simp add: singleFile_step_def Let_def split: sum.splits)

lemma translators_singleFile_step [simp]:
  "translators (snd (singleFile_step en data p s)) = translators s"
  by (simp add: singleFile_step_def Let_def split: sum.splits)

lemma trace_singleFile_step:
  "\<exists>evs. trace (snd (singleFile_step en data p s)) = trace s @ evs"
  by (simp add: singleFile_step_def Let_def split: sum.splits)

lemma sessionDetails_saveAsWebpage_try:
  "sessionDetails (snd (saveAsWebpage_try en sid title tid data img s)) =
     (if isl (fst (saveAsWebpage_try en sid title tid data img s)) then sessionDetails s
      else assign_session en sid tid (sessionDetails s))"
proof (cases "saveSnapshot en")
  case (Inl e)
  then show ?thesis by (simp add: saveAsWebpage_try_def Let_def)
next
  case (Inr result)
  let ?s3 = "emit (ProgressWindow_itemProgress
                      \<lparr>pi_sessionID = Some sid, pi_id = JNum 1, pi_iconSrc = img,
                       pi_title = title, pi_parentItem = JBool False, pi_progress = JNum 100,
                       pi_itemType = None, pi_itemsLoaded = JNum 1\<rparr>)
               (emit (ProgressWindow_sessionCreated sid) (emit (Call_saveSnapshot data) s))"
  let ?p = "\<lparr>pi_sessionID = Some sid, pi_id = JNum 2,
                       pi_iconSrc = ''attachment-snapshot'', pi_title = ''Snapshot'',
                       pi_parentItem = JNum 1, pi_progress = JNum 0,
                       pi_itemType = Some ''itemType_snapshot'', pi_itemsLoaded = JNum 1\<rparr>"
  obtain r s4 where st: "singleFile_step en data ?p ?s3 = (r, s4)"
    by (cases "singleFile_step en data ?p ?s3")
  have "sessionDetails (snd (r, s4)) = sessionDetails ?s3"
    unfolding st [symmetric] by (rule sessionDetails_singleFile_step)
  then have "sessionDetails s4 = sessionDetails s" by simp
  with Inr st show ?thesis
    by (cases r) (simp_all add: saveAsWebpage_try_def Let_def assign_session_def)
qed

lemma translators_saveAsWebpage_try [simp]:
  "translators (snd (saveAsWebpage_try en sid title tid data img s)) = translators s"
proof (cases "saveSnapshot en")
  case (Inl e)
  then show ?thesis by (simp add: saveAsWebpage_try_def Let_def)
next
  case (Inr result)
  let ?s3 = "emit (ProgressWindow_itemProgress
                      \<lparr>pi_sessionID = Some sid, pi_id = JNum 1, pi_iconSrc = img,
                       pi_title = title, pi_parentItem = JBool False, pi_progress = JNum 100,
                       pi_itemType = None, pi_itemsLoaded = JNum 1\<rparr>)
               (emit (ProgressWindow_sessionCreated sid) (emit (Call_saveSnapshot data) s))"
  let ?p = "\<lparr>pi_sessionID = Some sid, pi_id = JNum 2,
                       pi_iconSrc = ''attachment-snapshot'', pi_title = ''Snapshot'',
                       pi_parentItem = JNum 1, pi_progress = JNum 0,
                       pi_itemType = Some ''itemType_snapshot'', pi_itemsLoaded = JNum 1\<rparr>"
  obtain r s4 where st: "singleFile_step en data ?p ?s3 = (r, s4)"
    by (cases "singleFile_step en data ?p ?s3")
  have "translators (snd (r, s4)) = translators ?s3"
    unfolding st [symmetric] by (rule translators_singleFile_step)
  then have "translators s4 = translators s" by simp
  with Inr st show ?thesis
    by (cases r) (simp_all add: saveAsWebpage_try_def Let_def)
qed

lemma sessionDetails_saveAsWebpage_catch [simp]:
  "sessionDetails (snd (saveAsWebpage_catch en title img e s)) = sessionDetails s"
  by (simp add: saveAsWebpage_catch_def Let_def split: sum.splits)

lemma translators_saveAsWebpage_catch [simp]:
  "translators (snd (saveAsWebpage_catch en title img e s)) = translators s"
  by (simp add: saveAsWebpage_catch_def Let_def split: sum.splits)

lemma sessionDetails_saveAsWebpage_try_catch:
  "sessionDetails (snd (saveAsWebpage_try_catch en sid title tid data img s)) = sessionDetails s
   \<or> sessionDetails (snd (saveAsWebpage_try_catch en sid title tid data img s))
        = assign_session en sid tid (sessionDetails s)"
proof -
  obtain r s4 where t: "saveAsWebpage_try en sid title tid data img s = (r, s4)"
    by (cases "saveAsWebpage_try en sid title tid data img s")
  have s4: "sessionDetails s4 =
     (if isl r then sessionDetails s else assign_session en sid tid (sessionDetails s))"
    using sessionDetails_saveAsWebpage_try [of en sid title tid data img s] t by simp
  show ?thesis
    using t s4 by (cases r) (simp_all add: saveAsWebpage_try_catch_def)
qed

lemma translators_saveAsWebpage_try_catch [simp]:
  "translators (snd (saveAsWebpage_try_catch en sid title tid data img s)) = translators s"
proof -
  obtain r s4 where t: "saveAsWebpage_try en sid title tid data img s = (r, s4)"
    by (cases "saveAsWebpage_try en sid title tid data img s")
  have "translators (snd (r, s4)) = translators s"
    unfolding t [symmetric] by (rule translators_saveAsWebpage_try)
  then show ?thesis
    using t by (cases r) (simp_all add: saveAsWebpage_try_catch_def)
qed

text \<open>The session after saveAsWebpage: untouched, or the three properties assigned.\<close>

lemma sessionDetails_saveAsWebpage:
  "sessionDetails (snd (saveAsWebpage en args s)) = sessionDetails s
   \<or> (\<exists>sid tid. sessionDetails (snd (saveAsWebpage en args s))
                   = assign_session en sid tid (sessionDetails s))"
proof (cases "arg_sessionID args")
  case None
  then show ?thesis by (simp add: saveAsWebpage_def Let_def)
next
  case (Some sid)
  show ?thesis
  proof (cases "sid = []")
    case True
    with Some show ?thesis by (simp add: saveAsWebpage_def Let_def)
  next
    case False
    with Some obtain title tid data img s3 where
      eq: "saveAsWebpage en args s = saveAsWebpage_try_catch en sid title tid data img s3"
      and s3: "sessionDetails s3 = sessionDetails s"
      by (simp add: saveAsWebpage_def Let_def)
    from sessionDetails_saveAsWebpage_try_catch [of en sid title tid data img s3]
    show ?thesis unfolding eq s3 by blast
  qed
qed

lemma translators_saveAsWebpage [simp]:
  "translators (snd (saveAsWebpage en args s)) = translators s"
proof (cases "arg_sessionID args")
  case None
  then show ?thesis by (simp add: saveAsWebpage_def Let_def)
next
  case (Some sid)
  then show ?thesis
    by (simp add: saveAsWebpage_def Let_def)
qed

lemma trace_saveAsWebpage_try:
  "\<exists>evs. trace (snd (saveAsWebpage_try en sid title tid data img s)) = trace s @ evs"
proof (cases "saveSnapshot en")
  case (Inl e)
  then show ?thesis by (simp add: saveAsWebpage_try_def Let_def)
next
  case (Inr result)
  let ?s3 = "emit (ProgressWindow_itemProgress
                      \<lparr>pi_sessionID = Some sid, pi_id = JNum 1, pi_iconSrc = img,
                       pi_title = title, pi_parentItem = JBool False, pi_progress = JNum 100,
                       pi_itemType = None, pi_itemsLoaded = JNum 1\<rparr>)
               (emit (ProgressWindow_sessionCreated sid) (emit (Call_saveSnapshot data) s))"
  let ?p = "\<lparr>pi_sessionID = Some sid, pi_id = JNum 2,
                       pi_iconSrc = ''attachment-snapshot'', pi_title = ''Snapshot'',
                       pi_parentItem = JNum 1, pi_progress = JNum 0,
                       pi_itemType = Some ''itemType_snapshot'', pi_itemsLoaded = JNum 1\<rparr>"
  obtain r s4 where st: "singleFile_step en data ?p ?s3 = (r, s4)"
    by (cases "singleFile_step en data ?p ?s3")
  obtain evs where "trace (snd (r, s4)) = trace ?s3 @ evs"
    unfolding st [symmetric] using trace_singleFile_step by blast
  then have "trace s4 = trace s @ ([Call_saveSnapshot data, ProgressWindow_sessionCreated sid,
      ProgressWindow_itemProgress
                      \<lparr>pi_sessionID = Some sid, pi_id = JNum 1, pi_iconSrc = img,
                       pi_title = title, pi_parentItem = JBool False, pi_progress = JNum 100,
                       pi_itemType = None, pi_itemsLoaded = JNum 1\<rparr>] @ evs)" by simp
  with Inr st show ?thesis
    by (cases r) (simp_all add: saveAsWebpage_try_def Let_def)
qed

lemma trace_saveAsWebpage_catch:
  "\<exists>evs. trace (snd (saveAsWebpage_catch en title img e s)) = trace s @ evs"
  by (simp add: saveAsWebpage_catch_def Let_def split: sum.splits)

lemma trace_saveAsWebpage_try_catch:
  "\<exists>evs. trace (snd (saveAsWebpage_try_catch en sid title tid data img s)) = trace s @ evs"
proof -
  obtain r s4 where t: "saveAsWebpage_try en sid title tid data img s = (r, s4)"
    by (cases "saveAsWebpage_try en sid title tid data img s")
  obtain evs where e: "trace (snd (r, s4)) = trace s @ evs"
    unfolding t [symmetric] using trace_saveAsWebpage_try by blast
  show ?thesis
  proof (cases r)
    case (Inl err)
    obtain evs' where "trace (snd (saveAsWebpage_catch en title img err s4)) = trace s4 @ evs'"
      using trace_saveAsWebpage_catch by blast
    with Inl t e show ?thesis by (simp add: saveAsWebpage_try_catch_def)
  next
    case (Inr result)
    with t e show ?thesis by (simp add: saveAsWebpage_try_catch_def)
  qed
qed

lemma trace_saveAsWebpage:
  "\<exists>evs. trace (snd (saveAsWebpage en args s)) = trace s @ evs"
proof (cases "arg_sessionID args")
  case None
  then show ?thesis by (simp add: saveAsWebpage_def Let_def)
next
  case (Some sid)
  show ?thesis
  proof (cases "sid = []")
    case True
    with Some show ?thesis by (simp add: saveAsWebpage_def Let_def)
  next
    case False
    with Some obtain title tid data img s3 evs0 where
      eq: "saveAsWebpage en args s = saveAsWebpage_try_catch en sid title tid data img s3"
      and s3: "trace s3 = trace s @ evs0"
      by (cases "isChromium en") (simp_all add: saveAsWebpage_def Let_def)
    from trace_saveAsWebpage_try_catch [of en sid title tid data img s3]
    show ?thesis unfolding eq s3 by auto
  qed
qed

lemma findIndex_Some:
  "findIndex P xs = Some i \<Longrightarrow> i < length xs \<and> P (xs ! i)"
  by (induction xs arbitrary: i) (auto split: if_splits)

text \<open>What onTranslate does once translateAndSave has answered.\<close>

lemma onTranslate_save_returned:
  "translateAndSave en sid (selected_translators options i (translators s)) s = (Inr items, s1)
   \<Longrightarrow> onTranslate_save en options i tr sid s
         = (Inr (RItems items), emit (ProgressWindow_done True []) s1)"
  by (simp add: onTranslate_save_def)

lemma onTranslate_save_fallback:
  "translateAndSave en sid (selected_translators options i (translators s)) s = (Inl e, s1)
   \<Longrightarrow> itemType tr \<noteq> ''multiple'' \<Longrightarrow> truthy (opt_fallbackOnFailure options)
   \<Longrightarrow> onTranslate_save en options i tr sid s
         = saveAsWebpage en
             \<lparr>arg_sessionID = Some sid, arg_title = None, arg_snapshot = JBool True\<rparr>
             (emit (ProgressWindow_error_fallback (label (last (translators s1)))
                      ''Save as Webpage'') (emit (LogError e) s1))"
  by (simp add: onTranslate_save_def Let_def)

lemma onTranslate_save_failed:
  "translateAndSave en sid (selected_translators options i (translators s)) s = (Inl e, s1)
   \<Longrightarrow> itemType tr = ''multiple'' \<or> \<not> truthy (opt_fallbackOnFailure options)
   \<Longrightarrow> onTranslate_save en options i tr sid s
         = (Inr RUndefined, onTranslate_failed tr (err_string e) (emit (LogError e) s1))"
  by (auto simp: onTranslate_save_def Let_def)

lemma trace_onTranslate_failed:
  "trace (onTranslate_failed tr msg s) =
     trace s @ [if (translatorID tr \<in> set SITE_ACCESS_LIMIT_TRANSLATORS \<and> statusCode msg = ''403'')
                   \<or> statusCode msg = ''429''
                then ProgressWindow_done False [''siteAccessLimits'', label tr]
                else ProgressWindow_done False []]"
  by (simp add: onTranslate_failed_def Let_def clearSession_def)

lemma sessionDetails_onTranslate_failed [simp]:
  "sessionDetails (onTranslate_failed tr msg s) = empty_session"
  by (simp add: onTranslate_failed_def Let_def clearSession_def)

lemma trace_onTranslate_save:
  "\<exists>evs. trace (snd (onTranslate_save en options i tr sid s)) = trace s @ Call_initTranslate # evs"
proof -
  let ?ts = "selected_translators options i (translators s)"
  obtain r s1 where t: "translateAndSave en sid ?ts s = (r, s1)"
    by (cases "translateAndSave en sid ?ts s")
  obtain evs where e: "trace (snd (r, s1)) = trace s @ Call_initTranslate # evs"
    unfolding t [symmetric] using trace_translateAndSave by blast
  show ?thesis
  proof (cases r)
    case (Inr items)
    with t e show ?thesis by (simp add: onTranslate_save_returned)
  next
    case (Inl err)
    show ?thesis
    proof (cases "itemType tr \<noteq> ''multiple'' \<and> truthy (opt_fallbackOnFailure options)")
      case True
      let ?s2 = "emit (ProgressWindow_error_fallback (label (last (translators s1)))
                      ''Save as Webpage'') (emit (LogError err) s1)"
      let ?a = "\<lparr>arg_sessionID = Some sid, arg_title = None, arg_snapshot = JBool True\<rparr>"
      obtain evs' where "trace (snd (saveAsWebpage en ?a ?s2)) = trace ?s2 @ evs'"
        using trace_saveAsWebpage by blast
      with True Inl t e show ?thesis by (simp add: onTranslate_save_fallback)
    next
      case False
      with Inl t e show ?thesis
        by (simp add: onTranslate_save_failed trace_onTranslate_failed)
    qed
  qed
qed

lemma sessionDetails_onTranslate_save:
  "sessionDetails (snd (onTranslate_save en options i tr sid s)) = sessionDetails s
   \<or> sessionDetails (snd (onTranslate_save en options i tr sid s)) = empty_session
   \<or> (\<exists>sid' tid'. sessionDetails (snd (onTranslate_save en options i tr sid s))
                   = assign_session en sid' tid' (sessionDetails s))"
proof -
  let ?ts = "selected_translators options i (translators s)"
  obtain r s1 where t: "translateAndSave en sid ?ts s = (r, s1)"
    by (cases "translateAndSave en sid ?ts s")
  have sd: "sessionDetails (snd (r, s1)) = sessionDetails s"
    unfolding t [symmetric] by (rule sessionDetails_translateAndSave)
  show ?thesis
  proof (cases r)
    case (Inr items)
    with t sd show ?thesis by (simp add: onTranslate_save_returned)
  next
    case (Inl err)
    show ?thesis
    proof (cases "itemType tr \<noteq> ''multiple'' \<and> truthy (opt_fallbackOnFailure options)")
      case True
      let ?s2 = "emit (ProgressWindow_error_fallback (label (last (translators s1)))
                      ''Save as Webpage'') (emit (LogError err) s1)"
      let ?a = "\<lparr>arg_sessionID = Some sid, arg_title = None, arg_snapshot = JBool True\<rparr>"
      have "sessionDetails ?s2 = sessionDetails s" using sd by simp
      with sessionDetails_saveAsWebpage [of en ?a ?s2] True Inl t show ?thesis
        by (auto simp: onTranslate_save_fallback)
    next
      case False
      with Inl t show ?thesis by (simp add: onTranslate_save_failed)
    qed
  qed
qed

lemma session_inv_empty [simp]: "session_inv empty_session"
  by (simp add: session_inv_def)

lemma session_inv_assign [simp]: "session_inv (assign_session en sid tid sd)"
  by (simp add: session_inv_def assign_session_def)

lemma session_inv_initSession [simp]:
  "session_inv (sessionDetails (snd (initSession en tid options s)))"
  by (simp add: session_inv_def initSession_def Let_def)

lemma sessionDetails_onTranslate_start [simp]:
  "sessionDetails (snd (onTranslate_start en tid options tr s))
     = sessionDetails (snd (initSession en tid options s))"
  by (simp add: onTranslate_start_def Let_def)

lemma session_inv_saveAsWebpage:
  "session_inv (sessionDetails s) \<Longrightarrow> session_inv (sessionDetails (snd (saveAsWebpage en args s)))"
  using sessionDetails_saveAsWebpage [of en args s] by auto

lemma session_inv_onTranslate_save:
  "session_inv (sessionDetails s) \<Longrightarrow>
     session_inv (sessionDetails (snd (onTranslate_save en options i tr sid s)))"
  using sessionDetails_onTranslate_save [of en options i tr sid s] by auto

lemma session_inv_onTranslate:
  "session_inv (sessionDetails s) \<Longrightarrow>
     session_inv (sessionDetails (snd (onTranslate en tid options s)))"
  by (simp add: onTranslate_def Let_def session_inv_onTranslate_save split: option.splits)

lemma session_inv_onSaveAsWebpage:
  "session_inv (sessionDetails s) \<Longrightarrow>
     session_inv (sessionDetails (snd (onSaveAsWebpage en title options s)))"
  by (simp add: onSaveAsWebpage_def Let_def session_inv_saveAsWebpage)

lemma session_inv_onPageLoad:
  "session_inv (sessionDetails s) \<Longrightarrow>
     session_inv (sessionDetails (snd (onPageLoad en force s)))"
proof (cases "location_href (doc en) = ''about:blank''")
  case True
  assume "session_inv (sessionDetails s)"
  with True show ?thesis by (simp add: onPageLoad_def)
next
  case False
  then show ?thesis by (simp add: sessionDetails_onPageLoad)
qed

lemma fst_onTranslate_start [simp]:
  "fst (onTranslate_start en tid options tr s) = randomString en"
  by (simp add: onTranslate_start_def initSession_def Let_def)

lemma translators_onTranslate_start [simp]:
  "translators (snd (onTranslate_start en tid options tr s)) = translators s"
  by (simp add: onTranslate_start_def initSession_def Let_def)

lemma trace_onTranslate_start [simp]:
  "trace (snd (onTranslate_start en tid options tr s)) =
     trace s @ [SetTimeout_show (if itemType tr = ''multiple'' then 100 else 0) (randomString en)]"
  by (simp add: onTranslate_start_def initSession_def Let_def)

lemma sessionDetails_initSession:
  "sessionDetails (snd (initSession en tid options s)) =
     \<lparr>sess_id = Some (randomString en), sess_url = Some (location_href (doc en)),
      sess_translatorID = Some tid, sess_saveOptions = Some options\<rparr>"
  by (simp add: initSession_def Let_def)

lemma onTranslate_new_session:
  "checkActionToServer en \<Longrightarrow>
   findIndex (\<lambda>t. translatorID t = tid) (translators s) = Some i \<Longrightarrow>
   \<not> shouldReopenProgressWindow en tid options (Some (itemType (translators s ! i))) s \<Longrightarrow>
   onTranslate en tid options s =
     onTranslate_save en options i (translators s ! i) (randomString en)
       (snd (onTranslate_start en tid options (translators s ! i) s))"
  by (simp add: onTranslate_def Let_def)

lemma onTranslate_reopen:
  "checkActionToServer en \<Longrightarrow>
   findIndex (\<lambda>t. translatorID t = tid) (translators s) = Some i \<Longrightarrow>
   shouldReopenProgressWindow en tid options (Some (itemType (translators s ! i))) s \<Longrightarrow>
   onTranslate en tid options s =
     (Inr RSent, emit (ProgressWindow_show (sess_id (sessionDetails s))) s)"
  by (simp add: onTranslate_def Let_def)

lemma fst_saveAsWebpage_try_catch:
  "fst (saveAsWebpage_try_catch en sid title tid data img s) = Inr r \<Longrightarrow>
     r = RUndefined \<or> (\<exists>x. r = RResult x)"
  by (cases "saveAsWebpage_try en sid title tid data img s")
     (auto simp: saveAsWebpage_try_catch_def saveAsWebpage_catch_def Let_def
           split: sum.splits if_splits)

lemma fst_saveAsWebpage:
  "fst (saveAsWebpage en args s) = Inr r \<Longrightarrow> r = RUndefined \<or> (\<exists>x. r = RResult x)"
proof (cases "arg_sessionID args")
  case None
  assume "fst (saveAsWebpage en args s) = Inr r"
  with None show ?thesis by (simp add: saveAsWebpage_def Let_def)
next
  case (Some sid)
  assume a: "fst (saveAsWebpage en args s) = Inr r"
  show ?thesis
  proof (cases "sid = []")
    case True
    with Some a show ?thesis by (simp add: saveAsWebpage_def Let_def)
  next
    case False
    with Some obtain title tid data img s3 where
      "saveAsWebpage en args s = saveAsWebpage_try_catch en sid title tid data img s3"
      by (simp add: saveAsWebpage_def Let_def)
    with a fst_saveAsWebpage_try_catch show ?thesis by metis
  qed
qed

text \<open>onTranslate hands items back only when translateAndSave returned them.\<close>

lemma onTranslate_save_items:
  assumes "fst (onTranslate_save en options i tr sid s) = Inr (RItems items)"
  shows "sessionDetails (snd (onTranslate_save en options i tr sid s)) = sessionDetails s"
proof -
  let ?ts = "selected_translators options i (translators s)"
  obtain r s1 where t: "translateAndSave en sid ?ts s = (r, s1)"
    by (cases "translateAndSave en sid ?ts s")
  have sd: "sessionDetails (snd (r, s1)) = sessionDetails s"
    unfolding t [symmetric] by (rule sessionDetails_translateAndSave)
  show ?thesis
  proof (cases r)
    case (Inr its)
    with t sd show ?thesis by (simp add: onTranslate_save_returned)
  next
    case (Inl err)
    show ?thesis
    proof (cases "itemType tr \<noteq> ''multiple'' \<and> truthy (opt_fallbackOnFailure options)")
      case True
      with Inl t assms fst_saveAsWebpage show ?thesis
        by (fastforce simp: onTranslate_save_fallback)
    next
      case False
      with Inl t assms show ?thesis by (simp add: onTranslate_save_failed)
    qed
  qed
qed

text \<open>What the extracted status code says about the error message.\<close>

lemma match_here_Some:
  assumes "match_here str = Some d"
  shows "\<exists>post. str = ''status code '' @ d @ post" and "length d = 3" and "list_all isDigit d"
proof -
  from assms have a: "take 12 str = ''status code ''" and d: "d = take 3 (drop 12 str)"
    and l: "length (take 3 (drop 12 str)) = 3" and g: "list_all isDigit (take 3 (drop 12 str))"
    by (auto simp: match_here_def split: if_splits)
  have "take 3 (drop 12 str) @ drop 3 (drop 12 str) = drop 12 str"
    by (rule append_take_drop_id)
  moreover have "take 12 str @ drop 12 str = str"
    by (rule append_take_drop_id)
  ultimately have "str = take 12 str @ take 3 (drop 12 str) @ drop 3 (drop 12 str)"
    by (simp only:)
  then have "str = ''status code '' @ d @ drop 3 (drop 12 str)"
    using a d by simp
  then show "\<exists>post. str = ''status code '' @ d @ post" by blast
  from l d show "length d = 3" by simp
  from g d show "list_all isDigit d" by simp
qed

lemma match_status_code_Some:
  "match_status_code str = Some d \<Longrightarrow>
     (\<exists>pre post. str = pre @ ''status code '' @ d @ post) \<and> length d = 3 \<and> list_all isDigit d"
proof (induction str)
  case Nil
  then show ?case by simp
next
  case (Cons c cs)
  show ?case
  proof (cases "match_here (c # cs)")
    case (Some d')
    with Cons.prems have "d' = d" by simp
    with Some match_here_Some [of "c # cs" d] show ?thesis
      by (metis append_Nil)
  next
    case None
    with Cons.prems have "match_status_code cs = Some d" by simp
    with Cons.IH obtain pre post where "cs = pre @ ''status code '' @ d @ post"
      and r: "length d = 3 \<and> list_all isDigit d" by blast
    then have "c # cs = (c # pre) @ ''status code '' @ d @ post" by simp
    with r show ?thesis by blast
  qed
qed

lemma statusCode_contained:
  "statusCode msg = d \<Longrightarrow> d \<noteq> [] \<Longrightarrow> \<exists>pre post. msg = pre @ ''status code '' @ d @ post"
  using match_status_code_Some [of msg d]
  by (auto simp: statusCode_def split: option.splits)

lemma match_here_complete:
  assumes "length d = 3" and "set d \<subseteq> set ''0123456789''"
  shows "match_here (''status code '' @ d @ post) = Some d"
proof -
  from assms(2) have g: "list_all isDigit d"
    unfolding list_all_iff isDigit_def by blast
  have t: "take 12 (''status code '' @ d @ post) = ''status code ''"
    by simp
  have dr: "drop 12 (''status code '' @ d @ post) = d @ post"
    by simp
  have t3: "take 3 (d @ post) = d"
    using assms(1) by simp
  show ?thesis
    unfolding match_here_def t dr t3 using assms(1) g by simp
qed

lemma match_status_code_leftmost:
  "match_status_code msg = Some d \<Longrightarrow> leftmost_status_code msg d"
proof (induction msg)
  case Nil
  then show ?case by simp
next
  case (Cons c cs)
  show ?case
  proof (cases "match_here (c # cs)")
    case (Some d')
    with Cons.prems have eq: "d' = d" by simp
    from match_here_Some [OF Some] eq obtain post where
      m: "c # cs = [] @ ''status code '' @ d @ post" and l: "length d = 3"
      and g: "list_all isDigit d"
      by auto
    from g have s: "set d \<subseteq> set ''0123456789''"
      unfolding list_all_iff isDigit_def by blast
    have "\<forall>pre' d' post'.
              c # cs = pre' @ ''status code '' @ d' @ post'
              \<and> length d' = 3 \<and> set d' \<subseteq> set ''0123456789''
              \<longrightarrow> length ([] :: string) \<le> length pre'"
      by simp
    with m l s show ?thesis
      unfolding leftmost_status_code_def by blast
  next
    case None
    with Cons.prems have "match_status_code cs = Some d" by simp
    with Cons.IH have "leftmost_status_code cs d" by simp
    then obtain pre post where cs: "cs = pre @ ''status code '' @ d @ post"
      and d: "length d = 3" "set d \<subseteq> set ''0123456789''"
      and least: "\<And>pre' d' post'. cs = pre' @ ''status code '' @ d' @ post' \<Longrightarrow>
              length d' = 3 \<Longrightarrow> set d' \<subseteq> set ''0123456789'' \<Longrightarrow> length pre \<le> length pre'"
      unfolding leftmost_status_code_def by blast
    have "length (c # pre) \<le> length pre'"
      if m: "c # cs = pre' @ ''status code '' @ d' @ post'"
        and d': "length d' = 3" "set d' \<subseteq> set ''0123456789''" for pre' d' post'
    proof (cases pre')
      case Nil
      with m have "match_here (c # cs) = Some d'"
        using match_here_complete [OF d', of post'] by simp
      with None show ?thesis by simp
    next
      case (Cons a p)
      with m have "cs = p @ ''status code '' @ d' @ post'" by simp
      from least [OF this d'] Cons show ?thesis by simp
    qed
    moreover from cs have "c # cs = (c # pre) @ ''status code '' @ d @ post" by simp
    ultimately show ?thesis
      unfolding leftmost_status_code_def using d by blast
  qed
qed

lemma leftmost_match_status_code:
  assumes "msg = pre @ ''status code '' @ d @ post"
    and "length d = 3" and "set d \<subseteq> set ''0123456789''"
    and "\<And>pre' d' post'. msg = pre' @ ''status code '' @ d' @ post' \<Longrightarrow>
           length d' = 3 \<Longrightarrow> set d' \<subseteq> set ''0123456789'' \<Longrightarrow> length pre \<le> length pre'"
  shows "match_status_code msg = Some d"
  using assms
proof (induction pre arbitrary: msg)
  case Nil
  from Nil.prems(1) obtain c cs where m: "msg = c # cs" by simp
  from Nil.prems(1) have "match_here msg = Some d"
    using match_here_complete [OF Nil.prems(2,3), of post] by simp
  with m show ?case by simp
next
  case (Cons a p)
  let ?tl = "p @ ''status code '' @ d @ post"
  from Cons.prems(1) have m: "msg = a # ?tl" by simp
  have none: "match_here msg = None"
  proof (cases "match_here msg")
    case None
    then show ?thesis .
  next
    case (Some d')
    from match_here_Some [OF Some] obtain post' where
      m': "msg = [] @ ''status code '' @ d' @ post'" and l': "length d' = 3"
      and g': "list_all isDigit d'"
      by auto
    from g' have s': "set d' \<subseteq> set ''0123456789''"
      unfolding list_all_iff isDigit_def by blast
    from m' l' s' have "length (a # p) \<le> length ([] :: string)"
      by (rule Cons.prems(4))
    then show ?thesis by simp
  qed
  have "match_status_code ?tl = Some d"
  proof (rule Cons.IH [OF refl Cons.prems(2,3)])
    fix pre' d' post'
    assume t: "?tl = pre' @ ''status code '' @ d' @ post'"
      and d': "length d' = 3" "set d' \<subseteq> set ''0123456789''"
    from t m have "msg = (a # pre') @ ''status code '' @ d' @ post'" by simp
    from Cons.prems(4) [OF this d'] show "length p \<le> length pre'" by simp
  qed
  with none m show ?case by simp
qed

text \<open>The captured group of the source is the leftmost status code of the text.\<close>

lemma statusCode_leftmost:
  "d \<noteq> [] \<Longrightarrow> (statusCode msg = d) = leftmost_status_code msg d"
proof
  assume "d \<noteq> []" and "statusCode msg = d"
  then have "match_status_code msg = Some d"
    by (auto simp: statusCode_def split: option.splits)
  then show "leftmost_status_code msg d" by (rule match_status_code_leftmost)
next
  assume "leftmost_status_code msg d"
  then obtain pre post where "msg = pre @ ''status code '' @ d @ post"
      "length d = 3" "set d \<subseteq> set ''0123456789''"
      "\<And>pre' d' post'. msg = pre' @ ''status code '' @ d' @ post' \<Longrightarrow>
           length d' = 3 \<Longrightarrow> set d' \<subseteq> set ''0123456789'' \<Longrightarrow> length pre \<le> length pre'"
    unfolding leftmost_status_code_def by blast
  then have "match_status_code msg = Some d" by (rule leftmost_match_status_code)
  then show "statusCode msg = d" by (simp add: statusCode_def)
qed

subsection \<open>Creating the session\<close>

text \<open>
  Claim C6. A session is created per save action with exactly the four fields id, url,
  translatorID and saveOptions: \<^verbatim>\<open>_initSession\<close> returns the generated random
  string and stores it as the id, with the current document URL and the two arguments
  of the save action. Every run of \<^verbatim>\<open>onTranslate\<close> or \<^verbatim>\<open>onSaveAsWebpage\<close>
  that passes the server check and does not reopen the progress window continues from
  the state holding this session, with the same id handed to the progress window and to
  the save; and when \<^verbatim>\<open>onTranslate\<close> returns the saved items, that session is
  the one it leaves behind.
\<close>

theorem session_created_per_save:
  "fst (initSession en tid options s) = randomString en
   \<and> sessionDetails (snd (initSession en tid options s)) =
       \<lparr>sess_id = Some (randomString en), sess_url = Some (location_href (doc en)),
        sess_translatorID = Some tid, sess_saveOptions = Some options\<rparr>
   \<and> (checkActionToServer en
        \<and> findIndex (\<lambda>t. translatorID t = tid) (translators s) = Some i
        \<and> \<not> shouldReopenProgressWindow en tid options (Some (itemType (translators s ! i))) s
      \<longrightarrow> onTranslate en tid options s =
            onTranslate_save en options i (translators s ! i) (randomString en)
              (emit (SetTimeout_show (if itemType (translators s ! i) = ''multiple'' then 100 else 0)
                       (randomString en))
                 (snd (initSession en tid options s)))
          \<and> (\<forall>items. fst (onTranslate en tid options s) = Inr (RItems items) \<longrightarrow>
                sessionDetails (snd (onTranslate en tid options s)) =
                  \<lparr>sess_id = Some (randomString en), sess_url = Some (location_href (doc en)),
                   sess_translatorID = Some tid, sess_saveOptions = Some options\<rparr>))
   \<and> (checkActionToServer en
        \<and> \<not> shouldReopenProgressWindow en
              (''webpage'' @ (if truthy (opt_snapshot options) then ''WithSnapshot'' else []))
              options None s
      \<longrightarrow> onSaveAsWebpage en title options s =
            saveAsWebpage en
              \<lparr>arg_sessionID = Some (randomString en),
               arg_title = Some (case title of None \<Rightarrow> doc_title (doc en) | Some t \<Rightarrow> t),
               arg_snapshot = opt_snapshot options\<rparr>
              (snd (initSession en
                 (''webpage'' @ (if truthy (opt_snapshot options) then ''WithSnapshot'' else []))
                 options s)))"
proof (intro conjI impI allI)
  show "fst (initSession en tid options s) = randomString en"
    by (simp add: initSession_def Let_def)
next
  show "sessionDetails (snd (initSession en tid options s)) =
       \<lparr>sess_id = Some (randomString en), sess_url = Some (location_href (doc en)),
        sess_translatorID = Some tid, sess_saveOptions = Some options\<rparr>"
    by (rule sessionDetails_initSession)
next
  assume "checkActionToServer en
        \<and> findIndex (\<lambda>t. translatorID t = tid) (translators s) = Some i
        \<and> \<not> shouldReopenProgressWindow en tid options (Some (itemType (translators s ! i))) s"
  then show "onTranslate en tid options s =
            onTranslate_save en options i (translators s ! i) (randomString en)
              (emit (SetTimeout_show (if itemType (translators s ! i) = ''multiple'' then 100 else 0)
                       (randomString en))
                 (snd (initSession en tid options s)))"
    by (simp add: onTranslate_def onTranslate_start_def Let_def initSession_def)
next
  fix items
  assume a: "checkActionToServer en
        \<and> findIndex (\<lambda>t. translatorID t = tid) (translators s) = Some i
        \<and> \<not> shouldReopenProgressWindow en tid options (Some (itemType (translators s ! i))) s"
    and b: "fst (onTranslate en tid options s) = Inr (RItems items)"
  from a have eq: "onTranslate en tid options s =
     onTranslate_save en options i (translators s ! i) (randomString en)
       (snd (onTranslate_start en tid options (translators s ! i) s))"
    by (simp add: onTranslate_new_session)
  from b have "sessionDetails (snd (onTranslate en tid options s)) =
      sessionDetails (snd (onTranslate_start en tid options (translators s ! i) s))"
    unfolding eq by (rule onTranslate_save_items)
  then show "sessionDetails (snd (onTranslate en tid options s)) =
                  \<lparr>sess_id = Some (randomString en), sess_url = Some (location_href (doc en)),
                   sess_translatorID = Some tid, sess_saveOptions = Some options\<rparr>"
    by (simp add: sessionDetails_initSession)
next
  assume "checkActionToServer en
        \<and> \<not> shouldReopenProgressWindow en
              (''webpage'' @ (if truthy (opt_snapshot options) then ''WithSnapshot'' else []))
              options None s"
  then show "onSaveAsWebpage en title options s =
            saveAsWebpage en
              \<lparr>arg_sessionID = Some (randomString en),
               arg_title = Some (case title of None \<Rightarrow> doc_title (doc en) | Some t \<Rightarrow> t),
               arg_snapshot = opt_snapshot options\<rparr>
              (snd (initSession en
                 (''webpage'' @ (if truthy (opt_snapshot options) then ''WithSnapshot'' else []))
                 options s))"
    by (simp add: onSaveAsWebpage_def Let_def initSession_def)
qed

theorem session_created_per_save_witness:
  "fst (onTranslate ex_env (translatorID ex_tr) no_options ex_fresh) = Inr (RItems [ex_item])
   \<and> sessionDetails (snd (onTranslate ex_env (translatorID ex_tr) no_options ex_fresh)) =
       \<lparr>sess_id = Some ''k3Xw9QpZ'', sess_url = Some ''https://example.org/a'',
        sess_translatorID = Some (translatorID ex_tr), sess_saveOptions = Some no_options\<rparr>"
proof -
  have ok: "checkActionToServer ex_env" by (simp add: ex_env_def)
  have found: "findIndex (\<lambda>t. translatorID t = translatorID ex_tr) (translators ex_fresh) = Some 0"
    by (simp add: ex_fresh_def)
  have nr: "\<not> shouldReopenProgressWindow ex_env (translatorID ex_tr) no_options
               (Some (itemType (translators ex_fresh ! 0))) ex_fresh"
    by (simp add: ex_defs shouldReopenProgressWindow_def)
  have r: "fst (onTranslate ex_env (translatorID ex_tr) no_options ex_fresh) = Inr (RItems [ex_item])"
    by (simp add: ex_defs run_defs)
  have v: "randomString ex_env = ''k3Xw9QpZ''"
      "location_href (doc ex_env) = ''https://example.org/a''"
    by (simp_all add: ex_defs)
  from session_created_per_save
         [of ex_env "translatorID ex_tr" no_options ex_fresh 0 None]
       ok found nr r
  have "sessionDetails (snd (onTranslate ex_env (translatorID ex_tr) no_options ex_fresh)) =
          \<lparr>sess_id = Some (randomString ex_env), sess_url = Some (location_href (doc ex_env)),
           sess_translatorID = Some (translatorID ex_tr), sess_saveOptions = Some no_options\<rparr>"
    by blast
  with r v show ?thesis by simp
qed

subsection \<open>Reopening the progress window or saving again\<close>

text \<open>
  Claim C1, amended. For every call to \<^verbatim>\<open>onTranslate\<close> that passes the server
  check and whose translator is in the list, and for every call to
  \<^verbatim>\<open>onSaveAsWebpage\<close> that passes the server check: if a session exists (its id
  is truthy), the document URL is the stored url, the requested translator id is the
  stored one, the selected translator's item type is not \<^verbatim>\<open>multiple\<close> (for
  \<^verbatim>\<open>onSaveAsWebpage\<close> there is none), and the options carry neither a note nor
  resave, then \<^verbatim>\<open>progressWindow.show\<close> is sent with the stored id and nothing else
  changes; in every other case a new session is created and the save runs again (the
  delayed show and the translate object come next in the trace).
\<close>

theorem reopen_or_new_session:
  assumes ok: "checkActionToServer en"
  shows "(findIndex (\<lambda>t. translatorID t = tid) (translators s) = Some i \<longrightarrow>
           (if truthy_str (sess_id (sessionDetails s))
               \<and> sess_url (sessionDetails s) = Some (location_href (doc en))
               \<and> sess_translatorID (sessionDetails s) = Some tid
               \<and> itemType (translators s ! i) \<noteq> ''multiple''
               \<and> \<not> truthy (opt_note options) \<and> \<not> truthy (opt_resave options)
            then onTranslate en tid options s =
                   (Inr RSent, emit (ProgressWindow_show (sess_id (sessionDetails s))) s)
            else onTranslate en tid options s =
                   onTranslate_save en options i (translators s ! i) (randomString en)
                     (snd (onTranslate_start en tid options (translators s ! i) s))
                 \<and> sessionDetails (snd (onTranslate_start en tid options (translators s ! i) s)) =
                     \<lparr>sess_id = Some (randomString en), sess_url = Some (location_href (doc en)),
                      sess_translatorID = Some tid, sess_saveOptions = Some options\<rparr>
                 \<and> (\<exists>evs. trace (snd (onTranslate en tid options s)) =
                       trace s @ SetTimeout_show
                           (if itemType (translators s ! i) = ''multiple'' then 100 else 0)
                           (randomString en)
                         # Call_initTranslate # evs)))
       \<and> (if truthy_str (sess_id (sessionDetails s))
              \<and> sess_url (sessionDetails s) = Some (location_href (doc en))
              \<and> sess_translatorID (sessionDetails s) =
                  Some (''webpage'' @ (if truthy (opt_snapshot options) then ''WithSnapshot'' else []))
              \<and> \<not> truthy (opt_note options) \<and> \<not> truthy (opt_resave options)
           then onSaveAsWebpage en title options s =
                  (Inr RSent, emit (ProgressWindow_show (sess_id (sessionDetails s))) s)
           else onSaveAsWebpage en title options s =
                  saveAsWebpage en
                    \<lparr>arg_sessionID = Some (randomString en),
                     arg_title = Some (case title of None \<Rightarrow> doc_title (doc en) | Some t \<Rightarrow> t),
                     arg_snapshot = opt_snapshot options\<rparr>
                    (snd (initSession en
                       (''webpage'' @ (if truthy (opt_snapshot options) then ''WithSnapshot'' else []))
                       options s))
                \<and> sessionDetails (snd (initSession en
                       (''webpage'' @ (if truthy (opt_snapshot options) then ''WithSnapshot'' else []))
                       options s)) =
                     \<lparr>sess_id = Some (randomString en), sess_url = Some (location_href (doc en)),
                      sess_translatorID =
                        Some (''webpage'' @ (if truthy (opt_snapshot options) then ''WithSnapshot'' else [])),
                      sess_saveOptions = Some options\<rparr>)"
proof (intro conjI impI)
  assume found: "findIndex (\<lambda>t. translatorID t = tid) (translators s) = Some i"
  let ?tr = "translators s ! i"
  let ?c = "truthy_str (sess_id (sessionDetails s))
               \<and> sess_url (sessionDetails s) = Some (location_href (doc en))
               \<and> sess_translatorID (sessionDetails s) = Some tid
               \<and> itemType ?tr \<noteq> ''multiple''
               \<and> \<not> truthy (opt_note options) \<and> \<not> truthy (opt_resave options)"
  have c: "shouldReopenProgressWindow en tid options (Some (itemType ?tr)) s = ?c"
    by (auto simp: shouldReopenProgressWindow_def)
  show "if ?c
        then onTranslate en tid options s =
               (Inr RSent, emit (ProgressWindow_show (sess_id (sessionDetails s))) s)
        else onTranslate en tid options s =
               onTranslate_save en options i ?tr (randomString en)
                 (snd (onTranslate_start en tid options ?tr s))
             \<and> sessionDetails (snd (onTranslate_start en tid options ?tr s)) =
                 \<lparr>sess_id = Some (randomString en), sess_url = Some (location_href (doc en)),
                  sess_translatorID = Some tid, sess_saveOptions = Some options\<rparr>
             \<and> (\<exists>evs. trace (snd (onTranslate en tid options s)) =
                   trace s @ SetTimeout_show (if itemType ?tr = ''multiple'' then 100 else 0)
                       (randomString en)
                     # Call_initTranslate # evs)"
  proof (cases ?c)
    case True
    with c have "shouldReopenProgressWindow en tid options (Some (itemType ?tr)) s" by simp
    from onTranslate_reopen [OF ok found this] True show ?thesis by simp
  next
    case False
    with c have nr: "\<not> shouldReopenProgressWindow en tid options (Some (itemType ?tr)) s" by simp
    note eq = onTranslate_new_session [OF ok found nr]
    obtain evs where "trace (snd (onTranslate_save en options i ?tr (randomString en)
                 (snd (onTranslate_start en tid options ?tr s)))) =
        trace (snd (onTranslate_start en tid options ?tr s)) @ Call_initTranslate # evs"
      using trace_onTranslate_save by blast
    then have "\<exists>evs. trace (snd (onTranslate en tid options s)) =
                   trace s @ SetTimeout_show (if itemType ?tr = ''multiple'' then 100 else 0)
                       (randomString en)
                     # Call_initTranslate # evs"
      unfolding eq by simp
    with False eq show ?thesis by (auto simp: sessionDetails_initSession)
  qed
next
  let ?w = "''webpage'' @ (if truthy (opt_snapshot options) then ''WithSnapshot'' else [])"
  have c: "shouldReopenProgressWindow en ?w options None s =
      (truthy_str (sess_id (sessionDetails s))
              \<and> sess_url (sessionDetails s) = Some (location_href (doc en))
              \<and> sess_translatorID (sessionDetails s) = Some ?w
              \<and> \<not> truthy (opt_note options) \<and> \<not> truthy (opt_resave options))"
    by (auto simp: shouldReopenProgressWindow_def)
  show "if truthy_str (sess_id (sessionDetails s))
              \<and> sess_url (sessionDetails s) = Some (location_href (doc en))
              \<and> sess_translatorID (sessionDetails s) = Some ?w
              \<and> \<not> truthy (opt_note options) \<and> \<not> truthy (opt_resave options)
           then onSaveAsWebpage en title options s =
                  (Inr RSent, emit (ProgressWindow_show (sess_id (sessionDetails s))) s)
           else onSaveAsWebpage en title options s =
                  saveAsWebpage en
                    \<lparr>arg_sessionID = Some (randomString en),
                     arg_title = Some (case title of None \<Rightarrow> doc_title (doc en) | Some t \<Rightarrow> t),
                     arg_snapshot = opt_snapshot options\<rparr>
                    (snd (initSession en ?w options s))
                \<and> sessionDetails (snd (initSession en ?w options s)) =
                     \<lparr>sess_id = Some (randomString en), sess_url = Some (location_href (doc en)),
                      sess_translatorID = Some ?w, sess_saveOptions = Some options\<rparr>"
    using ok c
    by (simp add: onSaveAsWebpage_def Let_def sessionDetails_initSession)
       (simp add: initSession_def Let_def)
qed

theorem reopen_or_new_session_witness:
  "onTranslate ex_env (translatorID ex_tr) no_options ex_state
     = (Inr RSent, emit (ProgressWindow_show (Some ''Aa11Bb22'')) ex_state)
   \<and> onSaveAsWebpage ex_env None no_options ex_state
     = saveAsWebpage ex_env
         \<lparr>arg_sessionID = Some ''k3Xw9QpZ'', arg_title = Some ''A page'', arg_snapshot = JUndefined\<rparr>
         (snd (initSession ex_env ''webpage'' no_options ex_state))"
proof -
  have ok: "checkActionToServer ex_env" by (simp add: ex_env_def)
  have found: "findIndex (\<lambda>t. translatorID t = translatorID ex_tr) (translators ex_state) = Some 0"
    by (simp add: ex_state_def)
  have c1: "truthy_str (sess_id (sessionDetails ex_state))
               \<and> sess_url (sessionDetails ex_state) = Some (location_href (doc ex_env))
               \<and> sess_translatorID (sessionDetails ex_state) = Some (translatorID ex_tr)
               \<and> itemType (translators ex_state ! 0) \<noteq> ''multiple''
               \<and> \<not> truthy (opt_note no_options) \<and> \<not> truthy (opt_resave no_options)"
    by (simp add: ex_defs)
  have c2: "\<not> (truthy_str (sess_id (sessionDetails ex_state))
              \<and> sess_url (sessionDetails ex_state) = Some (location_href (doc ex_env))
              \<and> sess_translatorID (sessionDetails ex_state) =
                  Some (''webpage'' @ (if truthy (opt_snapshot no_options) then ''WithSnapshot'' else []))
              \<and> \<not> truthy (opt_note no_options) \<and> \<not> truthy (opt_resave no_options))"
    by (simp add: ex_defs)
  have v: "sess_id (sessionDetails ex_state) = Some ''Aa11Bb22''"
      "randomString ex_env = ''k3Xw9QpZ''" "doc_title (doc ex_env) = ''A page''"
      "opt_snapshot no_options = JUndefined"
    by (simp_all add: ex_defs)
  from reopen_or_new_session [OF ok, of "translatorID ex_tr" ex_state 0 no_options None]
    found c1 c2 v
  show ?thesis by simp
qed

text \<open>
  As first stated, for every call, the claim fails: when the server check does not pass,
  the reopen condition is false (no session exists) and still no session is created and
  nothing is sent.
\<close>

theorem reopen_or_new_session_counterexample:
  "\<not> shouldReopenProgressWindow (ex_env\<lparr>checkActionToServer := False\<rparr>)
        (translatorID ex_tr) no_options (Some (itemType ex_tr)) ex_fresh
   \<and> findIndex (\<lambda>t. translatorID t = translatorID ex_tr) (translators ex_fresh) = Some 0
   \<and> onTranslate (ex_env\<lparr>checkActionToServer := False\<rparr>) (translatorID ex_tr) no_options ex_fresh
       = (Inr RUndefined, ex_fresh)
   \<and> sessionDetails ex_fresh = empty_session \<and> trace ex_fresh = []"
  by (simp add: ex_defs run_defs)

subsection \<open>Failure of the translation\<close>

text \<open>
  Claim C4. When \<^verbatim>\<open>translateAndSave\<close> throws inside \<^verbatim>\<open>onTranslate\<close>: with an
  item type other than \<^verbatim>\<open>multiple\<close> and \<^verbatim>\<open>fallbackOnFailure\<close> set,
  \<^verbatim>\<open>onTranslate\<close> logs the error, sends the \<^verbatim>\<open>fallback\<close> error message and
  is then \<^verbatim>\<open>saveAsWebpage\<close> called with the same session id and the snapshot
  enabled; with \<^verbatim>\<open>fallbackOnFailure\<close> not set, the translators passed to
  \<^verbatim>\<open>translateAndSave\<close> are the selected one alone, and after the throw only the
  failure branch runs: no call of \<^verbatim>\<open>saveAsWebpage\<close>.
\<close>

theorem webpage_fallback:
  assumes ok: "checkActionToServer en"
    and found: "findIndex (\<lambda>t. translatorID t = tid) (translators s) = Some i"
    and nr: "\<not> shouldReopenProgressWindow en tid options (Some (itemType (translators s ! i))) s"
    and fail: "translateAndSave en (randomString en)
                 (selected_translators options i (translators s))
                 (snd (onTranslate_start en tid options (translators s ! i) s)) = (Inl e, s3)"
  shows "(itemType (translators s ! i) \<noteq> ''multiple'' \<and> truthy (opt_fallbackOnFailure options) \<longrightarrow>
           onTranslate en tid options s =
             saveAsWebpage en
               \<lparr>arg_sessionID = Some (randomString en), arg_title = None,
                arg_snapshot = JBool True\<rparr>
               (emit (ProgressWindow_error_fallback (label (last (translators s)))
                        ''Save as Webpage'') (emit (LogError e) s3)))
       \<and> (\<not> truthy (opt_fallbackOnFailure options) \<longrightarrow>
           selected_translators options i (translators s) = [translators s ! i]
           \<and> onTranslate en tid options s =
               (Inr RUndefined,
                onTranslate_failed (translators s ! i) (err_string e) (emit (LogError e) s3)))"
proof (intro conjI impI)
  let ?start = "snd (onTranslate_start en tid options (translators s ! i) s)"
  note eq = onTranslate_new_session [OF ok found nr]
  from fail have fail': "translateAndSave en (randomString en)
                 (selected_translators options i (translators ?start)) ?start = (Inl e, s3)"
    by simp
  have "translators (snd (translateAndSave en (randomString en)
                 (selected_translators options i (translators s)) ?start)) = translators ?start"
    by (rule translators_translateAndSave)
  with fail have ts3: "translators s3 = translators s" by simp
  {
    assume fb: "itemType (translators s ! i) \<noteq> ''multiple'' \<and> truthy (opt_fallbackOnFailure options)"
    then show "onTranslate en tid options s =
             saveAsWebpage en
               \<lparr>arg_sessionID = Some (randomString en), arg_title = None,
                arg_snapshot = JBool True\<rparr>
               (emit (ProgressWindow_error_fallback (label (last (translators s)))
                        ''Save as Webpage'') (emit (LogError e) s3))"
      unfolding eq using onTranslate_save_fallback [OF fail'] ts3 by simp
  }
  {
    assume "\<not> truthy (opt_fallbackOnFailure options)"
    then show "onTranslate en tid options s =
               (Inr RUndefined,
                onTranslate_failed (translators s ! i) (err_string e) (emit (LogError e) s3))"
      unfolding eq using onTranslate_save_failed [OF fail'] by simp
  }
  {
    assume nf: "\<not> truthy (opt_fallbackOnFailure options)"
    from findIndex_Some [OF found] have "i < length (translators s)" by simp
    then have "take 1 (drop i (translators s)) = [translators s ! i]"
      by (simp add: Cons_nth_drop_Suc [symmetric])
    with nf show "selected_translators options i (translators s) = [translators s ! i]"
      by (simp add: selected_translators_def)
  }
qed

theorem webpage_fallback_witness:
  "onTranslate (ex_env\<lparr>translate := Inl ex_failure\<rparr>) (translatorID ex_tr)
       (no_options\<lparr>opt_fallbackOnFailure := JBool True\<rparr>) ex_fresh
     = saveAsWebpage (ex_env\<lparr>translate := Inl ex_failure\<rparr>)
         \<lparr>arg_sessionID = Some ''k3Xw9QpZ'', arg_title = None, arg_snapshot = JBool True\<rparr>
         \<lparr>sessionDetails =
            \<lparr>sess_id = Some ''k3Xw9QpZ'', sess_url = Some ''https://example.org/a'',
             sess_translatorID = Some (translatorID ex_tr),
             sess_saveOptions = Some (no_options\<lparr>opt_fallbackOnFailure := JBool True\<rparr>)\<rparr>,
          translators = [ex_tr],
          trace = [SetTimeout_show 0 ''k3Xw9QpZ'', Call_initTranslate, Call_translate [ex_tr],
                   LogError ex_failure,
                   ProgressWindow_error_fallback ''Google Scholar'' ''Save as Webpage'']\<rparr>"
proof -
  let ?en = "ex_env\<lparr>translate := Inl ex_failure\<rparr>"
  let ?o = "no_options\<lparr>opt_fallbackOnFailure := JBool True\<rparr>"
  let ?s3 = "\<lparr>sessionDetails =
            \<lparr>sess_id = Some ''k3Xw9QpZ'', sess_url = Some ''https://example.org/a'',
             sess_translatorID = Some (translatorID ex_tr), sess_saveOptions = Some ?o\<rparr>,
          translators = [ex_tr],
          trace = [SetTimeout_show 0 ''k3Xw9QpZ'', Call_initTranslate, Call_translate [ex_tr]]\<rparr>"
  have ok: "checkActionToServer ?en" by (simp add: ex_env_def)
  have found: "findIndex (\<lambda>t. translatorID t = translatorID ex_tr) (translators ex_fresh) = Some 0"
    by (simp add: ex_fresh_def)
  have nr: "\<not> shouldReopenProgressWindow ?en (translatorID ex_tr) ?o
               (Some (itemType (translators ex_fresh ! 0))) ex_fresh"
    by (simp add: ex_defs shouldReopenProgressWindow_def)
  have fail: "translateAndSave ?en (randomString ?en)
                 (selected_translators ?o 0 (translators ex_fresh))
                 (snd (onTranslate_start ?en (translatorID ex_tr) ?o (translators ex_fresh ! 0) ex_fresh))
               = (Inl ex_failure, ?s3)"
    by (simp add: ex_defs run_defs)
  have fb: "itemType (translators ex_fresh ! 0) \<noteq> ''multiple'' \<and> truthy (opt_fallbackOnFailure ?o)"
    by (simp add: ex_defs)
  have v: "randomString ?en = ''k3Xw9QpZ''" "label (last (translators ex_fresh)) = ''Google Scholar''"
    by (simp_all add: ex_defs)
  from webpage_fallback [OF ok found nr fail] fb
  have "onTranslate ?en (translatorID ex_tr) ?o ex_fresh =
             saveAsWebpage ?en
               \<lparr>arg_sessionID = Some (randomString ?en), arg_title = None,
                arg_snapshot = JBool True\<rparr>
               (emit (ProgressWindow_error_fallback (label (last (translators ex_fresh)))
                        ''Save as Webpage'') (emit (LogError ex_failure) ?s3))"
    by blast
  then show ?thesis unfolding v by (simp add: emit_def)
qed

text \<open>
  Claim C2, amended. Whenever \<^verbatim>\<open>translateAndSave\<close> throws inside
  \<^verbatim>\<open>onTranslate\<close> and the webpage fallback is not taken (the item type is
  \<^verbatim>\<open>multiple\<close>, or \<^verbatim>\<open>fallbackOnFailure\<close> is not set), the session is
  cleared: \<^verbatim>\<open>onTranslate\<close> returns and \<^verbatim>\<open>sessionDetails\<close> holds no session.
\<close>

theorem session_cleared_on_failed_translation:
  assumes ok: "checkActionToServer en"
    and found: "findIndex (\<lambda>t. translatorID t = tid) (translators s) = Some i"
    and nr: "\<not> shouldReopenProgressWindow en tid options (Some (itemType (translators s ! i))) s"
    and fail: "fst (translateAndSave en (randomString en)
                 (selected_translators options i (translators s))
                 (snd (onTranslate_start en tid options (translators s ! i) s))) = Inl e"
    and nofb: "itemType (translators s ! i) = ''multiple'' \<or> \<not> truthy (opt_fallbackOnFailure options)"
  shows "fst (onTranslate en tid options s) = Inr RUndefined
       \<and> sessionDetails (snd (onTranslate en tid options s)) = empty_session"
proof -
  let ?start = "snd (onTranslate_start en tid options (translators s ! i) s)"
  obtain s3 where "translateAndSave en (randomString en)
                 (selected_translators options i (translators s)) ?start = (Inl e, s3)"
    using fail by (cases "translateAndSave en (randomString en)
                 (selected_translators options i (translators s)) ?start") simp
  then have "translateAndSave en (randomString en)
                 (selected_translators options i (translators ?start)) ?start = (Inl e, s3)"
    by simp
  from onTranslate_save_failed [OF this nofb] show ?thesis
    unfolding onTranslate_new_session [OF ok found nr] by simp
qed

theorem session_cleared_on_failed_translation_witness:
  "sessionDetails (snd (onTranslate (ex_env\<lparr>translate := Inl ex_failure\<rparr>) (translatorID ex_tr)
       (no_options\<lparr>opt_resave := JBool True\<rparr>) ex_state)) = empty_session
   \<and> sessionDetails ex_state \<noteq> empty_session"
proof -
  let ?en = "ex_env\<lparr>translate := Inl ex_failure\<rparr>"
  let ?o = "no_options\<lparr>opt_resave := JBool True\<rparr>"
  have ok: "checkActionToServer ?en" by (simp add: ex_env_def)
  have found: "findIndex (\<lambda>t. translatorID t = translatorID ex_tr) (translators ex_state) = Some 0"
    by (simp add: ex_state_def)
  have nr: "\<not> shouldReopenProgressWindow ?en (translatorID ex_tr) ?o
               (Some (itemType (translators ex_state ! 0))) ex_state"
    by (simp add: ex_defs shouldReopenProgressWindow_def)
  have fail: "fst (translateAndSave ?en (randomString ?en)
                 (selected_translators ?o 0 (translators ex_state))
                 (snd (onTranslate_start ?en (translatorID ex_tr) ?o (translators ex_state ! 0) ex_state)))
               = Inl ex_failure"
    by (simp add: ex_defs run_defs)
  have nofb: "itemType (translators ex_state ! 0) = ''multiple'' \<or> \<not> truthy (opt_fallbackOnFailure ?o)"
    by (simp add: ex_defs)
  have "sessionDetails ex_state \<noteq> empty_session" by (simp add: ex_defs)
  with session_cleared_on_failed_translation [OF ok found nr fail nofb] show ?thesis
    by simp
qed

text \<open>
  As first stated, for every throw of \<^verbatim>\<open>translateAndSave\<close>, the claim fails: with
  \<^verbatim>\<open>fallbackOnFailure\<close> set the page is saved as a webpage instead, and the
  session of the save is kept, its translator id now that of the webpage save.
\<close>

theorem session_cleared_on_failure_counterexample:
  "fst (translateAndSave (ex_env\<lparr>translate := Inl ex_failure\<rparr>) ''k3Xw9QpZ'' [ex_tr]
          (snd (onTranslate_start (ex_env\<lparr>translate := Inl ex_failure\<rparr>) (translatorID ex_tr)
                  (no_options\<lparr>opt_fallbackOnFailure := JBool True\<rparr>) ex_tr ex_fresh)))
     = Inl ex_failure
   \<and> fst (onTranslate (ex_env\<lparr>translate := Inl ex_failure\<rparr>) (translatorID ex_tr)
            (no_options\<lparr>opt_fallbackOnFailure := JBool True\<rparr>) ex_fresh)
     = Inr (RResult (Some \<lparr>saveSingleFile = False, attachments = None\<rparr>))
   \<and> sessionDetails (snd (onTranslate (ex_env\<lparr>translate := Inl ex_failure\<rparr>) (translatorID ex_tr)
            (no_options\<lparr>opt_fallbackOnFailure := JBool True\<rparr>) ex_fresh))
     = \<lparr>sess_id = Some ''k3Xw9QpZ'', sess_url = Some ''https://example.org/a'',
        sess_translatorID = Some ''webpageWithSnapshot'',
        sess_saveOptions = Some (no_options\<lparr>opt_fallbackOnFailure := JBool True\<rparr>)\<rparr>"
  by (simp add: ex_defs run_defs)

text \<open>
  Claim C10, amended. On a translation failure in \<^verbatim>\<open>onTranslate\<close> where no webpage
  fallback is taken, the last message sent is \<^verbatim>\<open>progressWindow.done\<close>, and it
  reports \<^verbatim>\<open>siteAccessLimits\<close> (with the translator's label) if and only if the
  leftmost place of the error message that reads \<^verbatim>\<open>status code\<close>, a space and
  three decimal digits has the digits 403 and the selected translator is in the
  site-access-limit set, or has the digits 429; in every other such failure, a message
  without such a place included, it is the plain failure message.
\<close>

theorem site_access_limits_message:
  assumes ok: "checkActionToServer en"
    and found: "findIndex (\<lambda>t. translatorID t = tid) (translators s) = Some i"
    and nr: "\<not> shouldReopenProgressWindow en tid options (Some (itemType (translators s ! i))) s"
    and fail: "fst (translateAndSave en (randomString en)
                 (selected_translators options i (translators s))
                 (snd (onTranslate_start en tid options (translators s ! i) s))) = Inl e"
    and nofb: "itemType (translators s ! i) = ''multiple'' \<or> \<not> truthy (opt_fallbackOnFailure options)"
  shows "((last (trace (snd (onTranslate en tid options s)))
            = ProgressWindow_done False [''siteAccessLimits'', label (translators s ! i)])
          = ((translatorID (translators s ! i) \<in> set SITE_ACCESS_LIMIT_TRANSLATORS
               \<and> leftmost_status_code (err_string e) ''403'')
             \<or> leftmost_status_code (err_string e) ''429''))
       \<and> ((last (trace (snd (onTranslate en tid options s))) = ProgressWindow_done False [])
          = (\<not> ((translatorID (translators s ! i) \<in> set SITE_ACCESS_LIMIT_TRANSLATORS
               \<and> leftmost_status_code (err_string e) ''403'')
             \<or> leftmost_status_code (err_string e) ''429'')))"
proof -
  let ?start = "snd (onTranslate_start en tid options (translators s ! i) s)"
  let ?tr = "translators s ! i"
  let ?c = "(translatorID ?tr \<in> set SITE_ACCESS_LIMIT_TRANSLATORS
              \<and> statusCode (err_string e) = ''403'')
            \<or> statusCode (err_string e) = ''429''"
  obtain s3 where "translateAndSave en (randomString en)
                 (selected_translators options i (translators s)) ?start = (Inl e, s3)"
    using fail by (cases "translateAndSave en (randomString en)
                 (selected_translators options i (translators s)) ?start") simp
  then have "translateAndSave en (randomString en)
                 (selected_translators options i (translators ?start)) ?start = (Inl e, s3)"
    by simp
  from onTranslate_save_failed [OF this nofb]
  have l: "last (trace (snd (onTranslate en tid options s))) =
      (if ?c then ProgressWindow_done False [''siteAccessLimits'', label ?tr]
       else ProgressWindow_done False [])"
    unfolding onTranslate_new_session [OF ok found nr]
    by (simp add: trace_onTranslate_failed)
  have a: "(statusCode (err_string e) = ''403'') = leftmost_status_code (err_string e) ''403''"
    by (rule statusCode_leftmost) simp
  have b: "(statusCode (err_string e) = ''429'') = leftmost_status_code (err_string e) ''429''"
    by (rule statusCode_leftmost) simp
  have 1: "(last (trace (snd (onTranslate en tid options s)))
            = ProgressWindow_done False [''siteAccessLimits'', label ?tr]) = ?c"
    unfolding l by simp
  have 2: "(last (trace (snd (onTranslate en tid options s))) = ProgressWindow_done False [])
         = (\<not> ?c)"
    unfolding l by simp
  from 1 2 show ?thesis unfolding a b by blast
qed

theorem site_access_limits_message_witness:
  "last (trace (snd (onTranslate (ex_env\<lparr>translate := Inl ex_failure\<rparr>) (translatorID ex_tr)
       no_options ex_fresh)))
     = ProgressWindow_done False [''siteAccessLimits'', ''Google Scholar'']
   \<and> err_string ex_failure = ''Error: HTTP request failed with '' @ ''status code '' @ ''403'' @ []"
proof -
  let ?en = "ex_env\<lparr>translate := Inl ex_failure\<rparr>"
  have ok: "checkActionToServer ?en" by (simp add: ex_env_def)
  have found: "findIndex (\<lambda>t. translatorID t = translatorID ex_tr) (translators ex_fresh) = Some 0"
    by (simp add: ex_fresh_def)
  have nr: "\<not> shouldReopenProgressWindow ?en (translatorID ex_tr) no_options
               (Some (itemType (translators ex_fresh ! 0))) ex_fresh"
    by (simp add: ex_defs shouldReopenProgressWindow_def)
  have fail: "fst (translateAndSave ?en (randomString ?en)
                 (selected_translators no_options 0 (translators ex_fresh))
                 (snd (onTranslate_start ?en (translatorID ex_tr) no_options
                         (translators ex_fresh ! 0) ex_fresh)))
               = Inl ex_failure"
    by (simp add: ex_defs run_defs)
  have nofb: "itemType (translators ex_fresh ! 0) = ''multiple''
                \<or> \<not> truthy (opt_fallbackOnFailure no_options)"
    by (simp add: ex_defs)
  have "statusCode (err_string ex_failure) = ''403''"
    by (simp add: ex_failure_def Error_def statusCode_def match_here_def isDigit_def)
  then have lm: "leftmost_status_code (err_string ex_failure) ''403''"
    by (simp add: statusCode_leftmost)
  have v: "translatorID (translators ex_fresh ! 0) \<in> set SITE_ACCESS_LIMIT_TRANSLATORS"
      "label (translators ex_fresh ! 0) = ''Google Scholar''"
    by (simp_all add: ex_defs SITE_ACCESS_LIMIT_TRANSLATORS_def)
  have t: "err_string ex_failure
             = ''Error: HTTP request failed with '' @ ''status code '' @ ''403'' @ []"
    by (simp add: ex_failure_def Error_def)
  from site_access_limits_message [OF ok found nr fail nofb] lm v
  have "last (trace (snd (onTranslate ?en (translatorID ex_tr) no_options ex_fresh)))
     = ProgressWindow_done False [''siteAccessLimits'', ''Google Scholar'']"
    by simp
  with t show ?thesis by simp
qed

text \<open>
  As first stated, with a message that merely contains the status code, the claim fails:
  this message contains \<^verbatim>\<open>status code 429\<close>, but an earlier status code, 500, is
  the one the source captures, and the plain failure message is sent.
\<close>

theorem site_access_limits_counterexample:
  "fst (translateAndSave (ex_env\<lparr>translate := Inl ex_two_codes\<rparr>) ''k3Xw9QpZ'' [ex_tr]
          (snd (onTranslate_start (ex_env\<lparr>translate := Inl ex_two_codes\<rparr>) (translatorID ex_tr)
                  no_options ex_tr ex_fresh)))
     = Inl ex_two_codes
   \<and> err_string ex_two_codes
       = ''Error: HTTP request failed with status code 500; retry failed with ''
         @ ''status code 429'' @ []
   \<and> statusCode (err_string ex_two_codes) = ''500''
   \<and> last (trace (snd (onTranslate (ex_env\<lparr>translate := Inl ex_two_codes\<rparr>) (translatorID ex_tr)
        no_options ex_fresh)))
       = ProgressWindow_done False []"
  by (simp add: ex_defs ex_two_codes_def run_defs statusCode_def match_here_def isDigit_def)

subsection \<open>One session per page\<close>

text \<open>
  Claim C7. At most one save session exists per page: \<^verbatim>\<open>sessionDetails\<close> is one
  object that is empty or identifies one save (id, url and translator all present). The
  object starts empty, every operation of \<^verbatim>\<open>PageSaving\<close> keeps this, and
  creating a session over an existing one gives what creating it over the empty object
  gives: the previous session is replaced.
\<close>

theorem one_session_per_page:
  "session_inv (sessionDetails PageSaving_init)
   \<and> (session_inv (sessionDetails s) \<longrightarrow>
        session_inv (sessionDetails (snd (onPageLoad en force s)))
        \<and> session_inv (sessionDetails (snd (onTranslate en tid options s)))
        \<and> session_inv (sessionDetails (snd (onSaveAsWebpage en title options s)))
        \<and> session_inv (sessionDetails (snd (saveAsWebpage en args s)))
        \<and> session_inv (sessionDetails (snd (initSession en tid options s)))
        \<and> session_inv (sessionDetails (clearSession s))
        \<and> sessionDetails (snd (initSession en tid options s))
             = sessionDetails (snd (initSession en tid options (clearSession s))))"
  by (simp add: session_inv_onPageLoad session_inv_onTranslate session_inv_onSaveAsWebpage
        session_inv_saveAsWebpage PageSaving_init_def)
     (simp add: clearSession_def initSession_def Let_def)

theorem one_session_per_page_witness:
  "session_inv (sessionDetails ex_state)
   \<and> session_inv (sessionDetails (snd (onTranslate ex_env (translatorID ex_tr)
        (no_options\<lparr>opt_resave := JBool True\<rparr>) ex_state)))
   \<and> session_inv (sessionDetails (snd (onSaveAsWebpage ex_env None no_options ex_state)))
   \<and> sess_id (sessionDetails (snd (initSession ex_env ''webpage'' no_options ex_state)))
       = Some ''k3Xw9QpZ''"
proof -
  have h: "session_inv (sessionDetails ex_state)"
    by (simp add: ex_defs session_inv_def)
  have "sess_id (sessionDetails (snd (initSession ex_env ''webpage'' no_options ex_state)))
       = Some ''k3Xw9QpZ''"
    by (simp add: initSession_def Let_def ex_env_def)
  with h one_session_per_page [of ex_state ex_env JUndefined "translatorID ex_tr"
      "no_options\<lparr>opt_resave := JBool True\<rparr>" None
      "\<lparr>arg_sessionID = None, arg_title = None, arg_snapshot = JUndefined\<rparr>"]
    one_session_per_page [of ex_state ex_env JUndefined "translatorID ex_tr"
      no_options None
      "\<lparr>arg_sessionID = None, arg_title = None, arg_snapshot = JUndefined\<rparr>"]
  show ?thesis by blast
qed

text \<open>
  The failure of the snapshot request itself leaves the session in place:
  \<^verbatim>\<open>saveAsWebpage\<close> has no \<^verbatim>\<open>_clearSession\<close>. Here the client answers
  with an unexpected error; the error is thrown again and the session created by
  \<^verbatim>\<open>onSaveAsWebpage\<close> is still there.
\<close>

lemma saveAsWebpage_failure_keeps_session:
  "fst (onSaveAsWebpage (ex_env\<lparr>saveSnapshot := Inl ex_failure\<rparr>) None no_options ex_fresh)
     = Inl ex_failure
   \<and> sessionDetails (snd (onSaveAsWebpage (ex_env\<lparr>saveSnapshot := Inl ex_failure\<rparr>) None
         no_options ex_fresh))
     = \<lparr>sess_id = Some ''k3Xw9QpZ'', sess_url = Some ''https://example.org/a'',
        sess_translatorID = Some ''webpage'', sess_saveOptions = Some no_options\<rparr>
   \<and> last (trace (snd (onSaveAsWebpage (ex_env\<lparr>saveSnapshot := Inl ex_failure\<rparr>) None
         no_options ex_fresh)))
     = ProgressWindow_done False [''unexpectedError'']"
  by (simp add: ex_defs run_defs)

end
